theory Spec2Isabelle
  imports Main "HOL-Library.Word" "HOL-Library.Sublist"
begin

unbundle bit_operations_syntax

section \<open>Strings\<close>

text \<open>
  Go strings are byte sequences; \<open>string\<close> is \<open>char list\<close> with 8-bit characters.
  \<open>Contains\<close> is \<open>strings.Contains\<close>: a left-to-right search for the first position
  at which the needle is a prefix of the rest.
\<close>

fun HasPrefix :: "string \<Rightarrow> string \<Rightarrow> bool" where
  "HasPrefix s [] = True"
| "HasPrefix [] (y # ys) = False"
| "HasPrefix (x # xs) (y # ys) = (if x = y then HasPrefix xs ys else False)"

fun Contains :: "string \<Rightarrow> string \<Rightarrow> bool" where
  "Contains [] substr = HasPrefix [] substr"
| "Contains (x # xs) substr = (if HasPrefix (x # xs) substr then True else Contains xs substr)"

text \<open>
  \<open>strings.ToLower\<close>, exact on every string whose lower-case form is ASCII. The ASCII
  letters \<open>A\<close> to \<open>Z\<close> move to \<open>a\<close> to \<open>z\<close>. Two letters beyond ASCII have an ASCII
  lower-case form: U+0130 (the bytes C4 B0 in UTF-8) becomes \<open>i\<close> and U+212A (the bytes
  E2 84 AA) becomes \<open>k\<close>. Every other byte from 128 on is kept here; Go may turn it into
  other bytes from 128 on, never into ASCII, so such a string is never one of the ASCII
  header names the handler looks up, in Go as in this model.
\<close>

definition toLowerByte :: "char \<Rightarrow> char" where
  "toLowerByte c =
     (case map_of (zip ''ABCDEFGHIJKLMNOPQRSTUVWXYZ'' ''abcdefghijklmnopqrstuvwxyz'') c of
        Some l \<Rightarrow> l
      | None \<Rightarrow> c)"

fun ToLower :: "string \<Rightarrow> string" where
  "ToLower [] = []"
| "ToLower [a] = [toLowerByte a]"
| "ToLower [a, b] =
     (if a = CHR 0xC4 \<and> b = CHR 0xB0 then ''i'' else [toLowerByte a, toLowerByte b])"
| "ToLower (a # b # c # rest) =
     (if a = CHR 0xE2 \<and> b = CHR 0x84 \<and> c = CHR 0xAA then CHR ''k'' # ToLower rest
      else if a = CHR 0xC4 \<and> b = CHR 0xB0 then CHR ''i'' # ToLower (c # rest)
      else toLowerByte a # ToLower (b # c # rest))"

declare ToLower.simps [simp del]

section \<open>The ingest service (ingest/main.go)\<close>

subsection \<open>Data\<close>

text \<open>\<open>LogEvent\<close>: the normalized internal format; the zero value has four empty strings.\<close>

record LogEvent =
  TenantID :: string
  LogID :: string
  OriginalText :: string
  Source :: string

definition zeroLogEvent :: LogEvent where
  "zeroLogEvent = \<lparr>TenantID = [], LogID = [], OriginalText = [], Source = []\<rparr>"

text \<open>
  The fields of \<open>events.APIGatewayV2HTTPRequest\<close> that the handler reads. \<open>Headers\<close> is a
  Go map; the list gives its entries in the order the \<open>range\<close> loop visits them.
\<close>

record request =
  Headers :: "(string \<times> string) list"
  Body :: string

record response =
  StatusCode :: int
  RHeaders :: "(string \<times> string) list"
  RBody :: string

datatype error = Error string

text \<open>
  A JSON document as \<open>encoding/json\<close> scans it. A number carries whether
  \<open>strconv.ParseFloat\<close> accepts its literal as a \<open>float64\<close> (\<open>1e999\<close> is not accepted);
  a string carries its decoded bytes; an object keeps its members in document order.
\<close>

datatype jvalue =
    JNull
  | JBool bool
  | JNumber bool
  | JString string
  | JArray "jvalue list"
  | JObject "(string \<times> jvalue) list"

text \<open>
  What the handler takes from its surroundings: the JSON scanner, the identifier
  generator, the encoder of a Go string as a JSON string literal, and the queue, which
  answers a \<open>SendMessage\<close> call for a payload with an error or with none.
\<close>

record ingest_env =
  jsonParse :: "string \<Rightarrow> jvalue option"
  uuidNew :: string
  jsonQuote :: "string \<Rightarrow> string"
  sendMessage :: "string \<Rightarrow> error option"

text \<open>
  What a call of the handler leaves behind: the pair it returns (\<open>resp\<close>, \<open>err\<close>) and
  the message bodies of the \<open>SendMessage\<close> calls it made, in order.
\<close>

record outcome =
  resp :: response
  err :: "error option"
  sqsCalls :: "string list"

subsection \<open>Decoding into map[string]interface{}\<close>

text \<open>
  \<open>noSavedError v\<close>: decoding \<open>v\<close> into an \<open>interface{}\<close> records no error. The decoder
  records one for a number that is not a \<open>float64\<close> and goes on, so every number of
  the value counts, at any depth.
\<close>

fun noSavedError :: "jvalue \<Rightarrow> bool" where
  "noSavedError JNull = True"
| "noSavedError (JBool b) = True"
| "noSavedError (JNumber ok) = ok"
| "noSavedError (JString s) = True"
| "noSavedError (JArray vs) = list_all noSavedError vs"
| "noSavedError (JObject kvs) = list_all (\<lambda>kv. noSavedError (snd kv)) kvs"

text \<open>
  \<open>json.Unmarshal\<close> of a scanned document into a nil \<open>map[string]interface{}\<close>:
  \<open>null\<close> leaves the map nil and is no error; an object fills the map, a later member
  overwriting an earlier one of the same key; any other document is an
  \<open>UnmarshalTypeError\<close>. A nil map reads like an empty one.
\<close>

definition unmarshalMap :: "jvalue \<Rightarrow> error + (string \<rightharpoonup> jvalue)" where
  "unmarshalMap v =
     (case v of
        JNull \<Rightarrow> Inr Map.empty
      | JObject kvs \<Rightarrow>
          (if list_all (\<lambda>kv. noSavedError (snd kv)) kvs then Inr (map_of (rev kvs))
           else Inl (Error ''json: cannot unmarshal number into Go value of type float64''))
      | _ \<Rightarrow> Inl (Error ''json: cannot unmarshal into Go value of type map[string]interface {}''))"

definition jsonUnmarshal :: "ingest_env \<Rightarrow> string \<Rightarrow> error + (string \<rightharpoonup> jvalue)" where
  "jsonUnmarshal env body =
     (case jsonParse env body of
        None \<Rightarrow> Inl (Error ''invalid character'')
      | Some v \<Rightarrow> unmarshalMap v)"

text \<open>The type assertion \<open>bodyMap[k].(string)\<close> with the comma-ok form.\<close>

definition assertString :: "(string \<rightharpoonup> jvalue) \<Rightarrow> string \<Rightarrow> string option" where
  "assertString bodyMap k = (case bodyMap k of Some (JString s) \<Rightarrow> Some s | _ \<Rightarrow> None)"

subsection \<open>The handler\<close>

text \<open>
  Lines 40 to 43: every header is stored under its lower-cased name, a later entry
  replacing an earlier one with the same lower-cased name. Reading a missing key of a
  Go map gives the empty string.
\<close>

fun normalizeHeaders :: "(string \<times> string) list \<Rightarrow> (string \<rightharpoonup> string) \<Rightarrow> (string \<rightharpoonup> string)" where
  "normalizeHeaders [] headers = headers"
| "normalizeHeaders ((k, v) # rest) headers = normalizeHeaders rest (headers(ToLower k \<mapsto> v))"

definition header :: "(string \<rightharpoonup> string) \<Rightarrow> string \<Rightarrow> string" where
  "header headers k = (case headers k of None \<Rightarrow> [] | Some v \<Rightarrow> v)"

definition errorResponse :: "int \<Rightarrow> string \<Rightarrow> outcome" where
  "errorResponse code body =
     \<lparr>resp = \<lparr>StatusCode = code, RHeaders = [], RBody = body\<rparr>, err = None, sqsCalls = []\<rparr>"

definition bodyUnsupported :: string where
  \<open>bodyUnsupported = ''{"error":"Unsupported Content-Type"}''\<close>

definition bodyInvalidJSON :: string where
  \<open>bodyInvalidJSON = ''{"error":"Invalid JSON"}''\<close>

definition bodyMissingTenant :: string where
  \<open>bodyMissingTenant = ''{"error":"Missing tenant_id"}''\<close>

definition bodyMissingText :: string where
  \<open>bodyMissingText = ''{"error":"Missing text content"}''\<close>

definition bodyInternal :: string where
  \<open>bodyInternal = ''{"error":"Internal server error"}''\<close>

text \<open>
  \<open>json.Marshal\<close> of a \<open>LogEvent\<close> (fields in declaration order) and of the accepted
  response, a \<open>map[string]string\<close> (keys in sorted order).
\<close>

definition marshalLogEvent :: "ingest_env \<Rightarrow> LogEvent \<Rightarrow> string" where
  \<open>marshalLogEvent env e =
     ''{"tenant_id":'' @ jsonQuote env (TenantID e) @
     '',"log_id":'' @ jsonQuote env (LogID e) @
     '',"original_text":'' @ jsonQuote env (OriginalText e) @
     '',"source":'' @ jsonQuote env (Source e) @ ''}''\<close>

definition marshalAccepted :: "ingest_env \<Rightarrow> LogEvent \<Rightarrow> string" where
  \<open>marshalAccepted env e =
     ''{"log_id":'' @ jsonQuote env (LogID e) @
     '',"message":"Processing queued","status":"accepted","tenant_id":'' @
     jsonQuote env (TenantID e) @ ''}''\<close>

text \<open>Lines 73 to 107: the two validations, the publication and the two last returns.\<close>

definition validateAndPublish :: "ingest_env \<Rightarrow> LogEvent \<Rightarrow> outcome" where
  "validateAndPublish env logEvent =
     (if TenantID logEvent = [] then errorResponse 400 bodyMissingTenant
      else if OriginalText logEvent = [] then errorResponse 400 bodyMissingText
      else
        (let payload = marshalLogEvent env logEvent in
         case sendMessage env payload of
           Some e \<Rightarrow>
             \<lparr>resp = \<lparr>StatusCode = 500, RHeaders = [], RBody = bodyInternal\<rparr>,
              err = None, sqsCalls = [payload]\<rparr>
         | None \<Rightarrow>
             \<lparr>resp = \<lparr>StatusCode = 202,
                      RHeaders = [(''Content-Type'', ''application/json'')],
                      RBody = marshalAccepted env logEvent\<rparr>,
              err = None, sqsCalls = [payload]\<rparr>))"

text \<open>Lines 51 to 64: the JSON branch, up to the validations.\<close>

definition jsonBranch :: "ingest_env \<Rightarrow> LogEvent \<Rightarrow> request \<Rightarrow> outcome" where
  "jsonBranch env logEvent0 request =
     (let logEvent1 = logEvent0\<lparr>Source := ''json_upload''\<rparr> in
      case jsonUnmarshal env (Body request) of
        Inl e \<Rightarrow> errorResponse 400 bodyInvalidJSON
      | Inr bodyMap \<Rightarrow>
          (let logEvent2 = (case assertString bodyMap ''tenant_id'' of
                              Some tid \<Rightarrow> logEvent1\<lparr>TenantID := tid\<rparr> | None \<Rightarrow> logEvent1);
               logEvent3 = (case assertString bodyMap ''text'' of
                              Some txt \<Rightarrow> logEvent2\<lparr>OriginalText := txt\<rparr> | None \<Rightarrow> logEvent2);
               logEvent4 = (case assertString bodyMap ''log_id'' of
                              Some lid \<Rightarrow> logEvent3\<lparr>LogID := lid\<rparr> | None \<Rightarrow> logEvent3)
           in validateAndPublish env logEvent4))"

text \<open>Lines 66 to 68: the text branch, up to the validations.\<close>

definition textBranch :: "ingest_env \<Rightarrow> LogEvent \<Rightarrow> (string \<rightharpoonup> string) \<Rightarrow> request \<Rightarrow> outcome" where
  "textBranch env logEvent0 headers request =
     validateAndPublish env
       (logEvent0\<lparr>Source := ''text_upload'',
                  TenantID := header headers ''x-tenant-id'',
                  OriginalText := Body request\<rparr>)"

definition handler :: "ingest_env \<Rightarrow> request \<Rightarrow> outcome" where
  "handler env request =
     (let headers = normalizeHeaders (Headers request) Map.empty;
          contentType = header headers ''content-type'';
          logEvent = zeroLogEvent\<lparr>LogID := uuidNew env\<rparr>
      in if Contains contentType ''application/json'' then jsonBranch env logEvent request
         else if Contains contentType ''text/plain'' then textBranch env logEvent headers request
         else errorResponse 400 bodyUnsupported)"

subsection \<open>The validation checks, as the specification words them\<close>

text \<open>
  The checks of the Normalizer, each stated on the request alone, so that several of
  them can fail for one request. Here: the content type is unsupported; the tenant
  identifier is empty or missing; the text is empty or missing. The normalized fields
  are empty where the request gives none. The check of the JSON body follows below,
  with the JSON objects.
\<close>

definition contentType :: "request \<Rightarrow> string" where
  "contentType request = header (normalizeHeaders (Headers request) Map.empty) ''content-type''"

definition unsupportedContentType :: "request \<Rightarrow> bool" where
  "unsupportedContentType request =
     (\<not> Contains (contentType request) ''application/json'' \<and>
      \<not> Contains (contentType request) ''text/plain'')"

definition stringField :: "ingest_env \<Rightarrow> request \<Rightarrow> string \<Rightarrow> string option" where
  "stringField env request k =
     (case jsonUnmarshal env (Body request) of
        Inl e \<Rightarrow> None
      | Inr bodyMap \<Rightarrow> assertString bodyMap k)"

definition normalizedTenant :: "ingest_env \<Rightarrow> request \<Rightarrow> string" where
  "normalizedTenant env request =
     (if Contains (contentType request) ''application/json''
      then (case stringField env request ''tenant_id'' of None \<Rightarrow> [] | Some tid \<Rightarrow> tid)
      else if Contains (contentType request) ''text/plain''
      then header (normalizeHeaders (Headers request) Map.empty) ''x-tenant-id''
      else [])"

definition normalizedText :: "ingest_env \<Rightarrow> request \<Rightarrow> string" where
  "normalizedText env request =
     (if Contains (contentType request) ''application/json''
      then (case stringField env request ''text'' of None \<Rightarrow> [] | Some txt \<Rightarrow> txt)
      else if Contains (contentType request) ''text/plain'' then Body request
      else [])"

definition normalizedLogID :: "ingest_env \<Rightarrow> request \<Rightarrow> string" where
  "normalizedLogID env request =
     (if Contains (contentType request) ''application/json''
      then (case stringField env request ''log_id'' of None \<Rightarrow> uuidNew env | Some lid \<Rightarrow> lid)
      else uuidNew env)"

definition normalizedSource :: "request \<Rightarrow> string" where
  "normalizedSource request =
     (if Contains (contentType request) ''application/json'' then ''json_upload''
      else ''text_upload'')"

definition normalizedEvent :: "ingest_env \<Rightarrow> request \<Rightarrow> LogEvent" where
  "normalizedEvent env request =
     \<lparr>TenantID = normalizedTenant env request, LogID = normalizedLogID env request,
      OriginalText = normalizedText env request, Source = normalizedSource request\<rparr>"

definition missingTenant :: "ingest_env \<Rightarrow> request \<Rightarrow> bool" where
  "missingTenant env request = (normalizedTenant env request = [])"

definition missingText :: "ingest_env \<Rightarrow> request \<Rightarrow> bool" where
  "missingText env request = (normalizedText env request = [])"

text \<open>Surroundings for the worked examples: a scanner given by a table of documents.\<close>

definition quoteASCII :: "string \<Rightarrow> string" where
  "quoteASCII s = CHR 0x22 # s @ [CHR 0x22]"

definition tableEnv :: "(string \<times> jvalue) list \<Rightarrow> error option \<Rightarrow> ingest_env" where
  "tableEnv docs answer =
     \<lparr>jsonParse = map_of docs, uuidNew = ''6f1c1a52-0000-4000-8000-000000000001'',
      jsonQuote = quoteASCII, sendMessage = (\<lambda>payload. answer)\<rparr>"

subsection \<open>JSON objects, as the specification words them\<close>

text \<open>
  The field \<open>k\<close> of a JSON object is the value of its last member named \<open>k\<close>;
  \<open>fieldString\<close> is that value when it is a JSON string. A document is \<open>decodable\<close>
  when it is \<open>null\<close> or an object all of whose numbers are \<open>float64\<close> values.
\<close>

fun lastMember :: "(string \<times> jvalue) list \<Rightarrow> string \<Rightarrow> jvalue option" where
  "lastMember [] k = None"
| "lastMember ((k', v) # rest) k =
     (case lastMember rest k of
        Some v' \<Rightarrow> Some v'
      | None \<Rightarrow> if k' = k then Some v else None)"

definition fieldString :: "(string \<times> jvalue) list \<Rightarrow> string \<Rightarrow> string option" where
  "fieldString members k =
     (case lastMember members k of Some (JString s) \<Rightarrow> Some s | _ \<Rightarrow> None)"

definition eventOfMembers :: "ingest_env \<Rightarrow> (string \<times> jvalue) list \<Rightarrow> LogEvent" where
  "eventOfMembers env members =
     \<lparr>TenantID = (case fieldString members ''tenant_id'' of None \<Rightarrow> [] | Some s \<Rightarrow> s),
      LogID = (case fieldString members ''log_id'' of None \<Rightarrow> uuidNew env | Some s \<Rightarrow> s),
      OriginalText = (case fieldString members ''text'' of None \<Rightarrow> [] | Some s \<Rightarrow> s),
      Source = ''json_upload''\<rparr>"

definition decodable :: "jvalue \<Rightarrow> bool" where
  "decodable v =
     (case v of
        JNull \<Rightarrow> True
      | JObject members \<Rightarrow> list_all (\<lambda>kv. noSavedError (snd kv)) members
      | _ \<Rightarrow> False)"

definition membersOf :: "jvalue \<Rightarrow> (string \<times> jvalue) list" where
  "membersOf v = (case v of JObject members \<Rightarrow> members | _ \<Rightarrow> [])"

text \<open>
  The check of the body on the JSON path, in two readings. \<open>malformedBody\<close>: the body is
  not well-formed JSON (the scanner rejects it). \<open>undecodableJSON\<close>: the body cannot be
  decoded into the field map, because it is not well-formed JSON or because it is
  well-formed but not \<open>decodable\<close>. A request is \<open>rejected\<close> when a check fails.
\<close>

definition malformedBody :: "ingest_env \<Rightarrow> request \<Rightarrow> bool" where
  "malformedBody env request =
     (Contains (contentType request) ''application/json'' \<and>
      jsonParse env (Body request) = None)"

definition undecodableJSON :: "ingest_env \<Rightarrow> request \<Rightarrow> bool" where
  "undecodableJSON env request =
     (Contains (contentType request) ''application/json'' \<and>
      (case jsonParse env (Body request) of None \<Rightarrow> True | Some v \<Rightarrow> \<not> decodable v))"

definition rejected :: "ingest_env \<Rightarrow> request \<Rightarrow> bool" where
  "rejected env request =
     (unsupportedContentType request \<or> undecodableJSON env request \<or>
      missingTenant env request \<or> missingText env request)"

text \<open>Requests and documents for the worked examples.\<close>

definition jsonRequest :: "string \<Rightarrow> request" where
  "jsonRequest body = \<lparr>Headers = [(''Content-Type'', ''application/json'')], Body = body\<rparr>"

definition sampleDocs :: "(string \<times> jvalue) list" where
  \<open>sampleDocs =
     [(''[]'', JArray []),
      (''{}'', JObject []),
      (''{"tenant_id":7,"text":"hello"}'',
         JObject [(''tenant_id'', JNumber True), (''text'', JString ''hello'')]),
      (''{"tenant_id":"acme","text":false,"log_id":"101"}'',
         JObject [(''tenant_id'', JString ''acme''), (''text'', JBool False),
                  (''log_id'', JString ''101'')]),
      (''{"tenant_id":"acme","text":"hello","log_id":101}'',
         JObject [(''tenant_id'', JString ''acme''), (''text'', JString ''hello''),
                  (''log_id'', JNumber True)])]\<close>

section \<open>The worker service (worker/main.go)\<close>

subsection \<open>Regular expressions\<close>

text \<open>
  The three patterns are sequences of items: the word boundary \<open>\b\<close> and a character
  class under one of the quantifiers \<open>{n}\<close>, \<open>?\<close>, \<open>+\<close> (a single character is a class
  taken once). \<open>Star\<close> is the tail of a \<open>+\<close>. A class is a union of atoms: \<open>\d\<close>, \<open>\w\<close>
  (both ASCII in Go's syntax) and single characters.
\<close>

datatype atom = Digit | WordChar | Lit char

datatype item =
    Boundary
  | Rep nat "atom list"
  | Opt "atom list"
  | Plus "atom list"
  | Star "atom list"

definition isDigit :: "char \<Rightarrow> bool" where
  "isDigit c = (48 \<le> (of_char c :: nat) \<and> (of_char c :: nat) \<le> 57)"

definition isWordChar :: "char \<Rightarrow> bool" where
  "isWordChar c =
     (isDigit c \<or> (65 \<le> (of_char c :: nat) \<and> (of_char c :: nat) \<le> 90) \<or>
      (97 \<le> (of_char c :: nat) \<and> (of_char c :: nat) \<le> 122) \<or> c = CHR ''_'')"

fun inAtom :: "atom \<Rightarrow> char \<Rightarrow> bool" where
  "inAtom Digit c = isDigit c"
| "inAtom WordChar c = isWordChar c"
| "inAtom (Lit l) c = (c = l)"

definition inClass :: "atom list \<Rightarrow> char \<Rightarrow> bool" where
  "inClass cls c = list_ex (\<lambda>a. inAtom a c) cls"

text \<open>
  \<open>\b\<close> holds between two positions of which exactly one is a word character; the
  start and the end of the text count as non-word. \<open>prev\<close> is the byte before the
  position (\<open>None\<close> at the start), the list is the text from the position on.
\<close>

definition wordBefore :: "char option \<Rightarrow> bool" where
  "wordBefore prev = (case prev of None \<Rightarrow> False | Some c \<Rightarrow> isWordChar c)"

definition wordAfter :: "string \<Rightarrow> bool" where
  "wordAfter s = (case s of [] \<Rightarrow> False | c # cs \<Rightarrow> isWordChar c)"

text \<open>
  \<open>matchHere items prev s\<close>: the length of the match of the sequence at the start of
  \<open>s\<close> that a backtracking search finds first (greedy quantifiers try the longer
  alternative first), which is the match Go's \<open>regexp\<close> reports; \<open>None\<close> when the
  sequence does not match there.
\<close>

fun matchHere :: "item list \<Rightarrow> char option \<Rightarrow> string \<Rightarrow> nat option" where
  "matchHere [] prev s = Some 0"
| "matchHere (Boundary # items) prev s =
     (if wordBefore prev \<noteq> wordAfter s then matchHere items prev s else None)"
| "matchHere (Rep 0 cls # items) prev s = matchHere items prev s"
| "matchHere (Rep (Suc n) cls # items) prev [] = None"
| "matchHere (Rep (Suc n) cls # items) prev (c # cs) =
     (if inClass cls c then map_option Suc (matchHere (Rep n cls # items) (Some c) cs)
      else None)"
| "matchHere (Opt cls # items) prev [] = matchHere items prev []"
| "matchHere (Opt cls # items) prev (c # cs) =
     (if inClass cls c
      then (case matchHere items (Some c) cs of
              Some k \<Rightarrow> Some (Suc k)
            | None \<Rightarrow> matchHere items prev (c # cs))
      else matchHere items prev (c # cs))"
| "matchHere (Plus cls # items) prev [] = None"
| "matchHere (Plus cls # items) prev (c # cs) =
     (if inClass cls c then map_option Suc (matchHere (Star cls # items) (Some c) cs)
      else None)"
| "matchHere (Star cls # items) prev [] = matchHere items prev []"
| "matchHere (Star cls # items) prev (c # cs) =
     (if inClass cls c
      then (case matchHere (Star cls # items) (Some c) cs of
              Some k \<Rightarrow> Some (Suc k)
            | None \<Rightarrow> matchHere items prev (c # cs))
      else matchHere items prev (c # cs))"

text \<open>
  \<open>ReplaceAllString\<close> with a replacement free of \<open>$\<close>: the text is scanned from the
  left; at a position where the pattern matches a non-empty piece, the replacement is
  written and the scan goes on behind the match; elsewhere the byte is copied. An empty
  match writes the replacement too, unless a match has just ended at the position
  (\<open>afterMatch\<close>). The word boundary at the position behind a match sees the last byte
  of the matched piece.
\<close>

fun replaceAll :: "item list \<Rightarrow> string \<Rightarrow> char option \<Rightarrow> bool \<Rightarrow> string \<Rightarrow> string" where
  "replaceAll re repl prev afterMatch [] =
     (case matchHere re prev [] of
        None \<Rightarrow> []
      | Some k \<Rightarrow> if afterMatch then [] else repl)"
| "replaceAll re repl prev afterMatch (c # cs) =
     (case matchHere re prev (c # cs) of
        None \<Rightarrow> c # replaceAll re repl (Some c) False cs
      | Some 0 \<Rightarrow>
          (if afterMatch then [] else repl) @ c # replaceAll re repl (Some c) False cs
      | Some (Suc k) \<Rightarrow>
          repl @ replaceAll re repl (Some (last (c # take k cs))) True (drop k cs))"

definition ReplaceAllString :: "item list \<Rightarrow> string \<Rightarrow> string \<Rightarrow> string" where
  "ReplaceAllString re src repl = replaceAll re repl None False src"

text \<open>The PII redaction patterns, lines 295 to 297 of the worker.\<close>

definition phonePattern :: "item list" where
  "phonePattern =
     [Boundary, Rep 3 [Digit], Opt [Lit CHR ''-'', Lit CHR ''.''], Rep 3 [Digit],
      Opt [Lit CHR ''-'', Lit CHR ''.''], Rep 4 [Digit], Boundary]"

definition ssnPattern :: "item list" where
  "ssnPattern =
     [Boundary, Rep 3 [Digit], Rep 1 [Lit CHR ''-''], Rep 2 [Digit], Rep 1 [Lit CHR ''-''],
      Rep 4 [Digit], Boundary]"

definition emailPattern :: "item list" where
  "emailPattern =
     [Boundary, Plus [WordChar, Lit CHR ''.'', Lit CHR ''-''], Rep 1 [Lit CHR ''@''],
      Plus [WordChar, Lit CHR ''.'', Lit CHR ''-''], Rep 1 [Lit CHR ''.''], Plus [WordChar],
      Boundary]"

definition redactPII :: "string \<Rightarrow> string" where
  "redactPII text0 =
     (let text1 = ReplaceAllString phonePattern text0 ''[REDACTED]'';
          text2 = ReplaceAllString ssnPattern text1 ''[REDACTED]'';
          text3 = ReplaceAllString emailPattern text2 ''[REDACTED]''
      in text3)"

subsection \<open>Data and surroundings of the worker\<close>

text \<open>
  The fields of an \<open>events.SQSMessage\<close> that the worker reads, the event it receives and
  the response it returns.
\<close>

record SQSMessage =
  MessageId :: string
  MBody :: string

record SQSEvent =
  Records :: "SQSMessage list"

record SQSBatchItemFailure =
  ItemIdentifier :: string

record SQSEventResponse =
  BatchItemFailures :: "SQSBatchItemFailure list"

text \<open>
  A DynamoDB item: attribute names to attribute values, all of them string members here.
  The table \<open>MultiTenantLogs\<close> of \<open>main.tf\<close> has the hash key \<open>tenant_id\<close> and the range
  key \<open>log_id\<close>, both of type \<open>S\<close>: it holds one item for each pair of the two.
\<close>

datatype AttributeValue = AttributeValueMemberS string

type_synonym ddb_item = "string \<rightharpoonup> AttributeValue"

type_synonym ddb_table = "(string \<times> string) \<rightharpoonup> ddb_item"

definition hash_key :: string where
  "hash_key = ''tenant_id''"

definition range_key :: string where
  "range_key = ''log_id''"

text \<open>
  Durations are \<open>int64\<close> nanoseconds (\<open>time.Duration\<close>); arithmetic on them wraps
  around and comparison is signed.
\<close>

type_synonym Duration = "64 word"

definition Millisecond :: Duration where
  "Millisecond = 1000000"

definition Second :: Duration where
  "Second = 1000000000"

text \<open>
  The state the worker acts on: the table, and the durations handed to \<open>time.Sleep\<close>
  so far, oldest first.
\<close>

record world =
  table :: ddb_table
  slept :: "Duration list"

text \<open>
  What the worker takes from its surroundings: \<open>json.Unmarshal\<close> into a \<open>LogEvent\<close>,
  the formatted clock reading at a state, and the answer of DynamoDB to a \<open>PutItem\<close>
  of an item at a state (an error, or none).
\<close>

record worker_env =
  jsonUnmarshalEvent :: "string \<Rightarrow> error + LogEvent"
  timeNow :: "world \<Rightarrow> string"
  putItemError :: "world \<Rightarrow> ddb_item \<Rightarrow> error option"

subsection \<open>The record writer\<close>

definition itemKey :: "ddb_item \<Rightarrow> (string \<times> string) option" where
  "itemKey item =
     (case (item hash_key, item range_key) of
        (Some (AttributeValueMemberS h), Some (AttributeValueMemberS r)) \<Rightarrow> Some (h, r)
      | _ \<Rightarrow> None)"

text \<open>
  \<open>PutItem\<close> without a condition expression: when DynamoDB answers with an error the
  table is as before; otherwise the item is stored under its key, replacing the item
  that was there. An item without its key attributes is refused.
\<close>

definition PutItem :: "worker_env \<Rightarrow> world \<Rightarrow> ddb_item \<Rightarrow> error + world" where
  "PutItem env w item =
     (case putItemError env w item of
        Some e \<Rightarrow> Inl e
      | None \<Rightarrow>
          (case itemKey item of
             None \<Rightarrow> Inl (Error ''ValidationException'')
           | Some k \<Rightarrow> Inr (w\<lparr>table := (table w)(k \<mapsto> item)\<rparr>)))"

subsection \<open>Processing one message\<close>

definition Sleep :: "world \<Rightarrow> Duration \<Rightarrow> world" where
  "Sleep w d = w\<lparr>slept := slept w @ [d]\<rparr>"

text \<open>Lines 348 to 351: \<open>len\<close> times 50 milliseconds, capped at five seconds.\<close>

definition sleepDuration :: "string \<Rightarrow> Duration" where
  "sleepDuration originalText =
     (let d = (of_nat (length originalText) :: Duration) * 50 * Millisecond
      in if 5 * Second <s d then 5 * Second else d)"

definition processedItem :: "LogEvent \<Rightarrow> string \<Rightarrow> string \<Rightarrow> ddb_item" where
  "processedItem event modifiedData now =
     [''tenant_id'' \<mapsto> AttributeValueMemberS (TenantID event),
      ''log_id'' \<mapsto> AttributeValueMemberS (LogID event),
      ''source'' \<mapsto> AttributeValueMemberS (Source event),
      ''original_text'' \<mapsto> AttributeValueMemberS (OriginalText event),
      ''modified_data'' \<mapsto> AttributeValueMemberS modifiedData,
      ''processed_at'' \<mapsto> AttributeValueMemberS now,
      ''status'' \<mapsto> AttributeValueMemberS ''PROCESSED'']"

definition processMessage :: "worker_env \<Rightarrow> world \<Rightarrow> SQSMessage \<Rightarrow> error option \<times> world" where
  "processMessage env w message =
     (case jsonUnmarshalEvent env (MBody message) of
        Inl e \<Rightarrow> (Some e, w)
      | Inr event \<Rightarrow>
          (let w1 = Sleep w (sleepDuration (OriginalText event));
               modifiedData = redactPII (OriginalText event);
               item = processedItem event modifiedData (timeNow env w1)
           in case PutItem env w1 item of
                Inl e \<Rightarrow> (Some e, w1)
              | Inr w2 \<Rightarrow> (None, w2)))"

subsection \<open>The batch handler\<close>

text \<open>
  Lines 318 to 332: the loop over the records, with the failures collected so far and
  the state; then the return, always with a nil error.
\<close>

fun handlerLoop ::
  "worker_env \<Rightarrow> world \<Rightarrow> SQSMessage list \<Rightarrow> SQSBatchItemFailure list \<Rightarrow>
   SQSBatchItemFailure list \<times> world" where
  "handlerLoop env w [] failures = (failures, w)"
| "handlerLoop env w (message # rest) failures =
     (case processMessage env w message of
        (Some e, w') \<Rightarrow>
          handlerLoop env w' rest (failures @ [\<lparr>ItemIdentifier = MessageId message\<rparr>])
      | (None, w') \<Rightarrow> handlerLoop env w' rest failures)"

definition workerHandler ::
  "worker_env \<Rightarrow> world \<Rightarrow> SQSEvent \<Rightarrow> (SQSEventResponse \<times> error option) \<times> world" where
  "workerHandler env w sqsEvent =
     (case handlerLoop env w (Records sqsEvent) [] of
        (failures, w') \<Rightarrow> ((\<lparr>BatchItemFailures = failures\<rparr>, None), w'))"

subsection \<open>Outcomes of a batch, as the specification words them\<close>

text \<open>
  \<open>worldBefore env w ms i\<close> is the state in which message \<open>i\<close> of the batch is taken up:
  the one left by its \<open>i\<close> predecessors. Message \<open>i\<close> fails when processing it in that
  state returns an error.
\<close>

definition worldBefore :: "worker_env \<Rightarrow> world \<Rightarrow> SQSMessage list \<Rightarrow> nat \<Rightarrow> world" where
  "worldBefore env w ms i = foldl (\<lambda>w' m. snd (processMessage env w' m)) w (take i ms)"

definition failsAt :: "worker_env \<Rightarrow> world \<Rightarrow> SQSMessage list \<Rightarrow> nat \<Rightarrow> bool" where
  "failsAt env w ms i = (fst (processMessage env (worldBefore env w ms i) (ms ! i)) \<noteq> None)"

definition failedItems :: "worker_env \<Rightarrow> world \<Rightarrow> SQSMessage list \<Rightarrow> SQSBatchItemFailure list" where
  "failedItems env w ms =
     map (\<lambda>i. \<lparr>ItemIdentifier = MessageId (ms ! i)\<rparr>) (filter (failsAt env w ms) [0..<length ms])"

text \<open>
  Surroundings, a state and a batch for the worked examples: a decoder given by a table
  of message bodies, a fixed clock reading, and a DynamoDB that refuses the item with
  the log identifier 103.
\<close>

definition sampleBodies :: "(string \<times> LogEvent) list" where
  "sampleBodies =
     [(''body-101'', \<lparr>TenantID = ''acme'', LogID = ''101'',
                     OriginalText = ''call 800-555-0199'', Source = ''json_upload''\<rparr>),
      (''body-103'', \<lparr>TenantID = ''acme'', LogID = ''103'',
                     OriginalText = ''a@b.com'', Source = ''text_upload''\<rparr>),
      (''body-104'', \<lparr>TenantID = ''beta'', LogID = ''104'',
                     OriginalText = ''no pii here'', Source = ''text_upload''\<rparr>)]"

definition sampleWorkerEnv :: worker_env where
  "sampleWorkerEnv =
     \<lparr>jsonUnmarshalEvent =
        (\<lambda>body. case map_of sampleBodies body of
                  None \<Rightarrow> Inl (Error ''invalid character'')
                | Some event \<Rightarrow> Inr event),
      timeNow = (\<lambda>w. ''2024-05-01T12:00:00Z''),
      putItemError =
        (\<lambda>w item. if item ''log_id'' = Some (AttributeValueMemberS ''103'')
                   then Some (Error ''ProvisionedThroughputExceededException'')
                   else None)\<rparr>"

definition emptyWorld :: world where
  "emptyWorld = \<lparr>table = Map.empty, slept = []\<rparr>"

definition sampleBatch :: SQSEvent where
  "sampleBatch =
     \<lparr>Records =
        [\<lparr>MessageId = ''m1'', MBody = ''body-101''\<rparr>,
         \<lparr>MessageId = ''m2'', MBody = ''not json''\<rparr>,
         \<lparr>MessageId = ''m3'', MBody = ''body-103''\<rparr>,
         \<lparr>MessageId = ''m4'', MBody = ''body-104''\<rparr>]\<rparr>"

definition sampleItem :: ddb_item where
  "sampleItem =
     processedItem
       \<lparr>TenantID = ''acme'', LogID = ''101'', OriginalText = ''call 800-555-0199'',
        Source = ''json_upload''\<rparr>
       ''call [REDACTED]'' ''2024-05-01T12:00:00Z''"

section \<open>Properties of the ingest handler\<close>

lemma unmarshalMap_decodable:
  "unmarshalMap v = (if decodable v then Inr (map_of (rev (membersOf v)))
                     else Inl (Error (if v = JNull \<or> (\<exists>ms. v = JObject ms)
                       then ''json: cannot unmarshal number into Go value of type float64''
                       else ''json: cannot unmarshal into Go value of type map[string]interface {}'')))"
  by (cases v) (simp_all add: unmarshalMap_def decodable_def membersOf_def)

lemma undecodableJSON_isl:
  "undecodableJSON env request =
     (Contains (contentType request) ''application/json'' \<and>
      isl (jsonUnmarshal env (Body request)))"
  by (simp add: undecodableJSON_def jsonUnmarshal_def unmarshalMap_decodable
      split: option.split)

lemma validateAndPublish_err: "err (validateAndPublish env e) = None"
  by (simp add: validateAndPublish_def errorResponse_def Let_def split: option.split)

lemma validateAndPublish_status:
  "StatusCode (resp (validateAndPublish env e)) \<in> {202, 400, 500}"
  by (simp add: validateAndPublish_def errorResponse_def Let_def split: option.split)

lemma jsonBranch_err: "err (jsonBranch env e request) = None"
  by (simp add: jsonBranch_def Let_def validateAndPublish_err errorResponse_def
      split: sum.split)

lemma jsonBranch_status: "StatusCode (resp (jsonBranch env e request)) \<in> {202, 400, 500}"
proof (cases "jsonUnmarshal env (Body request)")
  case (Inl a)
  then show ?thesis by (simp add: jsonBranch_def errorResponse_def)
next
  case (Inr bodyMap)
  then show ?thesis
    unfolding jsonBranch_def Let_def by (simp only: sum.case validateAndPublish_status)
qed

text \<open>
  C10. The ingest handler is total at its interface: whatever the headers, the body and
  the surroundings are, it returns one response whose status code is 202, 400 or 500,
  together with a nil error.
\<close>

theorem handler_total:
  "err (handler env request) = None \<and>
   StatusCode (resp (handler env request)) \<in> {202, 400, 500}"
proof -
  let ?hs = "normalizeHeaders (Headers request) Map.empty"
  let ?ct = "header ?hs ''content-type''"
  let ?e = "zeroLogEvent\<lparr>LogID := uuidNew env\<rparr>"
  consider (json) "Contains ?ct ''application/json''"
    | (plain) "\<not> Contains ?ct ''application/json''" "Contains ?ct ''text/plain''"
    | (none) "\<not> Contains ?ct ''application/json''" "\<not> Contains ?ct ''text/plain''"
    by blast
  then show ?thesis
  proof cases
    case json
    then have "handler env request = jsonBranch env ?e request"
      by (simp add: handler_def Let_def)
    then show ?thesis using jsonBranch_err jsonBranch_status by simp
  next
    case plain
    then have "handler env request = textBranch env ?e ?hs request"
      by (simp add: handler_def Let_def)
    then show ?thesis
      using validateAndPublish_err validateAndPublish_status by (simp add: textBranch_def)
  next
    case none
    then show ?thesis by (simp add: handler_def Let_def errorResponse_def)
  qed
qed

subsection \<open>The handler by cases\<close>

lemma handler_cases:
  "handler env request =
     (if Contains (contentType request) ''application/json''
      then jsonBranch env (zeroLogEvent\<lparr>LogID := uuidNew env\<rparr>) request
      else if Contains (contentType request) ''text/plain''
      then textBranch env (zeroLogEvent\<lparr>LogID := uuidNew env\<rparr>)
             (normalizeHeaders (Headers request) Map.empty) request
      else errorResponse 400 bodyUnsupported)"
  by (simp add: handler_def contentType_def Let_def)

lemma jsonBranch_Inl:
  "jsonUnmarshal env (Body request) = Inl e \<Longrightarrow>
   jsonBranch env e0 request = errorResponse 400 bodyInvalidJSON"
  by (simp add: jsonBranch_def)

lemma jsonBranch_Inr:
  assumes "jsonUnmarshal env (Body request) = Inr bodyMap"
  shows "jsonBranch env (zeroLogEvent\<lparr>LogID := uuidNew env\<rparr>) request =
         validateAndPublish env
           \<lparr>TenantID = (case assertString bodyMap ''tenant_id'' of None \<Rightarrow> [] | Some t \<Rightarrow> t),
            LogID = (case assertString bodyMap ''log_id'' of None \<Rightarrow> uuidNew env | Some l \<Rightarrow> l),
            OriginalText = (case assertString bodyMap ''text'' of None \<Rightarrow> [] | Some t \<Rightarrow> t),
            Source = ''json_upload''\<rparr>"
  using assms by (simp add: jsonBranch_def Let_def zeroLogEvent_def split: option.split)

lemma handler_normalized:
  assumes "\<not> unsupportedContentType request" and "\<not> undecodableJSON env request"
  shows "handler env request = validateAndPublish env (normalizedEvent env request)"
proof (cases "Contains (contentType request) ''application/json''")
  case True
  with assms(2) obtain bodyMap where m: "jsonUnmarshal env (Body request) = Inr bodyMap"
    by (cases "jsonUnmarshal env (Body request)") (simp_all add: undecodableJSON_isl)
  show ?thesis
    using True m
    by (simp add: handler_cases jsonBranch_Inr normalizedEvent_def normalizedTenant_def
        normalizedText_def normalizedLogID_def normalizedSource_def stringField_def)
next
  case False
  with assms(1) have t: "Contains (contentType request) ''text/plain''"
    by (simp add: unsupportedContentType_def)
  show ?thesis
    using False t
    by (simp add: handler_cases textBranch_def normalizedEvent_def normalizedTenant_def
        normalizedText_def normalizedLogID_def normalizedSource_def zeroLogEvent_def)
qed

lemma handler_unsupported:
  "unsupportedContentType request \<Longrightarrow> handler env request = errorResponse 400 bodyUnsupported"
  by (simp add: handler_cases unsupportedContentType_def)

lemma handler_malformed:
  "undecodableJSON env request \<Longrightarrow> handler env request = errorResponse 400 bodyInvalidJSON"
  by (cases "jsonUnmarshal env (Body request)")
     (simp_all add: handler_cases undecodableJSON_isl jsonBranch_Inl)

lemma error_bodies_distinct:
  "distinct [bodyUnsupported, bodyInvalidJSON, bodyMissingTenant, bodyMissingText, bodyInternal]"
  by (simp add: bodyUnsupported_def bodyInvalidJSON_def bodyMissingTenant_def
      bodyMissingText_def bodyInternal_def)

text \<open>
  C3, as amended. The response of the ingest handler is that of the first failing check
  in the order (1) unsupported content type, (2) on the JSON path, a body that cannot be
  decoded into the field map (not well-formed JSON, or well-formed JSON that is neither
  \<open>null\<close> nor an object with \<open>float64\<close> numbers only), (3) missing tenant identifier,
  (4) missing text; each of the four is a 400 with its own body (the second with
  \<open>Invalid JSON\<close>), the bodies are pairwise different, and when all four checks pass a
  failing \<open>SendMessage\<close> gives the 500 with the internal-error body (a succeeding one
  the 202).
\<close>

theorem handler_validation_order:
  "resp (handler env request) =
     (if unsupportedContentType request
      then \<lparr>StatusCode = 400, RHeaders = [], RBody = bodyUnsupported\<rparr>
      else if undecodableJSON env request
      then \<lparr>StatusCode = 400, RHeaders = [], RBody = bodyInvalidJSON\<rparr>
      else if missingTenant env request
      then \<lparr>StatusCode = 400, RHeaders = [], RBody = bodyMissingTenant\<rparr>
      else if missingText env request
      then \<lparr>StatusCode = 400, RHeaders = [], RBody = bodyMissingText\<rparr>
      else if sendMessage env (marshalLogEvent env (normalizedEvent env request)) \<noteq> None
      then \<lparr>StatusCode = 500, RHeaders = [], RBody = bodyInternal\<rparr>
      else \<lparr>StatusCode = 202, RHeaders = [(''Content-Type'', ''application/json'')],
            RBody = marshalAccepted env (normalizedEvent env request)\<rparr>) \<and>
   distinct [bodyUnsupported, bodyInvalidJSON, bodyMissingTenant, bodyMissingText] \<and>
   bodyUnsupported = ''{'' @ quoteASCII ''error'' @ '':'' @ quoteASCII ''Unsupported Content-Type'' @ ''}'' \<and>
   bodyInvalidJSON = ''{'' @ quoteASCII ''error'' @ '':'' @ quoteASCII ''Invalid JSON'' @ ''}'' \<and>
   bodyMissingTenant = ''{'' @ quoteASCII ''error'' @ '':'' @ quoteASCII ''Missing tenant_id'' @ ''}'' \<and>
   bodyMissingText = ''{'' @ quoteASCII ''error'' @ '':'' @ quoteASCII ''Missing text content'' @ ''}'' \<and>
   bodyInternal = ''{'' @ quoteASCII ''error'' @ '':'' @ quoteASCII ''Internal server error'' @ ''}''"
proof -
  have order: "resp (handler env request) =
     (if unsupportedContentType request
      then \<lparr>StatusCode = 400, RHeaders = [], RBody = bodyUnsupported\<rparr>
      else if undecodableJSON env request
      then \<lparr>StatusCode = 400, RHeaders = [], RBody = bodyInvalidJSON\<rparr>
      else if missingTenant env request
      then \<lparr>StatusCode = 400, RHeaders = [], RBody = bodyMissingTenant\<rparr>
      else if missingText env request
      then \<lparr>StatusCode = 400, RHeaders = [], RBody = bodyMissingText\<rparr>
      else if sendMessage env (marshalLogEvent env (normalizedEvent env request)) \<noteq> None
      then \<lparr>StatusCode = 500, RHeaders = [], RBody = bodyInternal\<rparr>
      else \<lparr>StatusCode = 202, RHeaders = [(''Content-Type'', ''application/json'')],
            RBody = marshalAccepted env (normalizedEvent env request)\<rparr>)"
  proof (cases "unsupportedContentType request")
    case True
    then show ?thesis by (simp add: handler_unsupported errorResponse_def)
  next
    case u: False
    show ?thesis
    proof (cases "undecodableJSON env request")
      case True
      then show ?thesis using u by (simp add: handler_malformed errorResponse_def)
    next
      case False
      have "handler env request = validateAndPublish env (normalizedEvent env request)"
        using u False by (rule handler_normalized)
      then show ?thesis
        using u False
        by (auto simp add: validateAndPublish_def missingTenant_def missingText_def
            normalizedEvent_def errorResponse_def Let_def)
    qed
  qed
  have bodies: "distinct [bodyUnsupported, bodyInvalidJSON, bodyMissingTenant, bodyMissingText]"
    using error_bodies_distinct by simp
  show ?thesis
    using order bodies
    by (simp add: bodyUnsupported_def bodyInvalidJSON_def bodyMissingTenant_def
        bodyMissingText_def bodyInternal_def quoteASCII_def)
qed

text \<open>
  C5. A request that fails one of the four checks gets its 400 and leaves no
  \<open>SendMessage\<close> call behind; more generally no 400 response comes with a call.
\<close>

theorem rejected_never_enqueued:
  "(rejected env request \<longrightarrow>
      StatusCode (resp (handler env request)) = 400 \<and> sqsCalls (handler env request) = []) \<and>
   (StatusCode (resp (handler env request)) = 400 \<longrightarrow> sqsCalls (handler env request) = [])"
proof -
  have calls: "sqsCalls (validateAndPublish env e) \<noteq> [] \<Longrightarrow>
               StatusCode (resp (validateAndPublish env e)) \<noteq> 400" for e
    by (auto simp add: validateAndPublish_def errorResponse_def Let_def
        split: if_splits option.splits)
  have rej: "StatusCode (resp (validateAndPublish env e)) = 400 \<and>
             sqsCalls (validateAndPublish env e) = []"
    if "TenantID e = [] \<or> OriginalText e = []" for e
    using that by (auto simp add: validateAndPublish_def errorResponse_def)
  have second: "StatusCode (resp (handler env request)) = 400 \<longrightarrow>
                sqsCalls (handler env request) = []"
  proof (cases "unsupportedContentType request \<or> undecodableJSON env request")
    case True
    then show ?thesis
      by (auto simp add: handler_unsupported handler_malformed errorResponse_def)
  next
    case False
    then have "handler env request = validateAndPublish env (normalizedEvent env request)"
      by (simp add: handler_normalized)
    then show ?thesis using calls by auto
  qed
  have first: "rejected env request \<longrightarrow>
      StatusCode (resp (handler env request)) = 400 \<and> sqsCalls (handler env request) = []"
  proof (cases "unsupportedContentType request \<or> undecodableJSON env request")
    case True
    then show ?thesis
      by (auto simp add: handler_unsupported handler_malformed errorResponse_def)
  next
    case False
    then have h: "handler env request = validateAndPublish env (normalizedEvent env request)"
      by (simp add: handler_normalized)
    show ?thesis
    proof
      assume "rejected env request"
      with False have "TenantID (normalizedEvent env request) = [] \<or>
                       OriginalText (normalizedEvent env request) = []"
        by (simp add: rejected_def missingTenant_def missingText_def normalizedEvent_def)
      then show "StatusCode (resp (handler env request)) = 400 \<and>
                 sqsCalls (handler env request) = []"
        using rej h by simp
    qed
  qed
  show ?thesis using first second by blast
qed


subsection \<open>Substrings, headers and object members\<close>

lemma HasPrefix_prefix: "HasPrefix s sub = prefix sub s"
  by (induction s sub rule: HasPrefix.induct) auto

lemma Contains_sublist: "Contains s sub = sublist sub s"
  by (induction s) (auto simp add: HasPrefix_prefix sublist_Cons_right)

lemma normalizeHeaders_lookup:
  "normalizeHeaders hs m k =
     (case filter (\<lambda>kv. ToLower (fst kv) = k) hs of
        [] \<Rightarrow> m k
      | kv # kvs \<Rightarrow> Some (snd (last (kv # kvs))))"
proof (induction hs arbitrary: m)
  case Nil
  then show ?case by simp
next
  case (Cons a hs)
  obtain k' v where a: "a = (k', v)" by (cases a)
  have "normalizeHeaders (a # hs) m k = normalizeHeaders hs (m(ToLower k' \<mapsto> v)) k"
    by (simp add: a)
  also have "\<dots> = (case filter (\<lambda>kv. ToLower (fst kv) = k) hs of
        [] \<Rightarrow> (m(ToLower k' \<mapsto> v)) k
      | kv # kvs \<Rightarrow> Some (snd (last (kv # kvs))))"
    by (rule Cons.IH)
  also have "\<dots> = (case filter (\<lambda>kv. ToLower (fst kv) = k) (a # hs) of
        [] \<Rightarrow> m k
      | kv # kvs \<Rightarrow> Some (snd (last (kv # kvs))))"
    by (auto simp add: a split: list.splits)
  finally show ?case .
qed

lemma map_of_rev_lastMember: "map_of (rev kvs) k = lastMember kvs k"
  by (induction kvs) (auto simp add: map_add_def split: option.splits)

lemma assertString_fieldString:
  "assertString (map_of (rev members)) k = fieldString members k"
  by (simp add: assertString_def fieldString_def map_of_rev_lastMember)

lemma handler_json_decodable:
  assumes "Contains (contentType request) ''application/json''"
    and "jsonParse env (Body request) = Some v" and "decodable v"
  shows "handler env request = validateAndPublish env (eventOfMembers env (membersOf v))"
proof -
  have "jsonUnmarshal env (Body request) = Inr (map_of (rev (membersOf v)))"
    using assms(2,3) by (simp add: jsonUnmarshal_def unmarshalMap_decodable)
  then show ?thesis
    using assms(1)
    by (simp add: handler_cases jsonBranch_Inr assertString_fieldString eventOfMembers_def)
qed

lemma handler_json_undecodable:
  assumes "Contains (contentType request) ''application/json''"
    and "jsonParse env (Body request) = None \<or>
         (\<exists>v. jsonParse env (Body request) = Some v \<and> \<not> decodable v)"
  shows "handler env request = errorResponse 400 bodyInvalidJSON"
proof -
  have "isl (jsonUnmarshal env (Body request))"
    using assms(2) by (auto simp add: jsonUnmarshal_def unmarshalMap_decodable)
  then show ?thesis
    using assms(1) by (simp add: handler_malformed undecodableJSON_isl)
qed

text \<open>
  C7, as amended. On the JSON path, a body that the scanner rejects, and a body that is
  valid JSON but is neither \<open>null\<close> nor an object with \<open>float64\<close> numbers only (an
  array, a string, a number, a boolean at top level), is the hard failure 400
  \<open>Invalid JSON\<close>. For every other body the three fields are taken only from members
  that are JSON strings, an absent or wrong-typed member counting as absent: the
  outcome is that of validating and publishing the event built from the string fields,
  never the hard failure; a \<open>tenant_id\<close> that is not a string gives 400
  \<open>Missing tenant_id\<close>; a non-empty \<open>tenant_id\<close> with a \<open>text\<close> that is not a string
  gives 400 \<open>Missing text content\<close>; a \<open>log_id\<close> that is not a string leaves the
  generated identifier in the event.
\<close>

theorem json_field_extraction:
  assumes "Contains (contentType request) ''application/json''"
  shows
   "(jsonParse env (Body request) = None \<longrightarrow>
       handler env request = errorResponse 400 bodyInvalidJSON) \<and>
    (\<forall>v. jsonParse env (Body request) = Some v \<and> \<not> decodable v \<longrightarrow>
       handler env request = errorResponse 400 bodyInvalidJSON) \<and>
    (\<forall>v. jsonParse env (Body request) = Some v \<and> decodable v \<longrightarrow>
       handler env request = validateAndPublish env (eventOfMembers env (membersOf v)) \<and>
       RBody (resp (handler env request)) \<noteq> bodyInvalidJSON \<and>
       (fieldString (membersOf v) ''tenant_id'' = None \<longrightarrow>
          handler env request = errorResponse 400 bodyMissingTenant) \<and>
       (fieldString (membersOf v) ''tenant_id'' \<noteq> None \<and>
        fieldString (membersOf v) ''tenant_id'' \<noteq> Some [] \<and>
        fieldString (membersOf v) ''text'' = None \<longrightarrow>
          handler env request = errorResponse 400 bodyMissingText) \<and>
       (fieldString (membersOf v) ''log_id'' = None \<longrightarrow>
          LogID (eventOfMembers env (membersOf v)) = uuidNew env))"
proof (intro conjI allI impI)
  show "handler env request = errorResponse 400 bodyInvalidJSON"
    if "jsonParse env (Body request) = None"
    using assms that by (simp add: handler_json_undecodable)
next
  fix v
  assume "jsonParse env (Body request) = Some v \<and> \<not> decodable v"
  then show "handler env request = errorResponse 400 bodyInvalidJSON"
    using assms by (simp add: handler_json_undecodable)
next
  fix v
  assume a: "jsonParse env (Body request) = Some v \<and> decodable v"
  then show h: "handler env request = validateAndPublish env (eventOfMembers env (membersOf v))"
    using assms by (simp add: handler_json_decodable)
  show "RBody (resp (handler env request)) \<noteq> bodyInvalidJSON"
    unfolding h
    by (simp add: validateAndPublish_def errorResponse_def Let_def bodyInvalidJSON_def
        bodyMissingTenant_def bodyMissingText_def bodyInternal_def marshalAccepted_def
        split: option.split)
  show "handler env request = errorResponse 400 bodyMissingTenant"
    if "fieldString (membersOf v) ''tenant_id'' = None"
    unfolding h using that by (simp add: validateAndPublish_def eventOfMembers_def)
  show "handler env request = errorResponse 400 bodyMissingText"
    if "fieldString (membersOf v) ''tenant_id'' \<noteq> None \<and>
        fieldString (membersOf v) ''tenant_id'' \<noteq> Some [] \<and>
        fieldString (membersOf v) ''text'' = None"
    unfolding h using that by (auto simp add: validateAndPublish_def eventOfMembers_def)
  show "LogID (eventOfMembers env (membersOf v)) = uuidNew env"
    if "fieldString (membersOf v) ''log_id'' = None"
    using that by (simp add: eventOfMembers_def)
qed

lemma ToLower_Content_Type: "ToLower ''Content-Type'' = ''content-type''"
  by code_simp

text \<open>
  The two letters beyond ASCII: a header named \<open>X-Tenant-\<close>, U+0130, \<open>d\<close> is read as
  \<open>x-tenant-id\<close>, and U+212A lower-cases to \<open>k\<close>.
\<close>

lemma ToLower_beyond_ASCII:
  "ToLower (''X-Tenant-'' @ [CHR 0xC4, CHR 0xB0] @ ''d'') = ''x-tenant-id'' \<and>
   ToLower ([CHR 0xE2, CHR 0x84, CHR 0xAA] @ ''EY'') = ''key''"
  by code_simp

lemma header_dotted_I:
  "header (normalizeHeaders
             [(''Content-Type'', ''text/plain''),
              (''X-Tenant-'' @ [CHR 0xC4, CHR 0xB0] @ ''d'', ''beta_inc'')] Map.empty)
     ''x-tenant-id'' = ''beta_inc''"
  using ToLower_beyond_ASCII by (simp add: header_def ToLower_Content_Type)

lemma contentType_jsonRequest: "contentType (jsonRequest body) = ''application/json''"
  by (simp add: jsonRequest_def contentType_def header_def ToLower_Content_Type)

text \<open>
  C4, as amended. The handler dispatches on the value stored under the lower-cased
  header name \<open>content-type\<close> (the last such header the loop visits, the empty string
  when there is none), matched as it stands, letter case included: a value with the
  substring \<open>application/json\<close> takes the JSON branch, otherwise a value with the
  substring \<open>text/plain\<close> takes the text branch, otherwise the request is rejected with
  400 \<open>Unsupported Content-Type\<close>; so is every request without such a header.
\<close>

theorem content_type_dispatch:
  "contentType request =
     (case filter (\<lambda>kv. ToLower (fst kv) = ''content-type'') (Headers request) of
        [] \<Rightarrow> []
      | kv # kvs \<Rightarrow> snd (last (kv # kvs))) \<and>
   handler env request =
     (if sublist ''application/json'' (contentType request)
      then jsonBranch env (zeroLogEvent\<lparr>LogID := uuidNew env\<rparr>) request
      else if sublist ''text/plain'' (contentType request)
      then textBranch env (zeroLogEvent\<lparr>LogID := uuidNew env\<rparr>)
             (normalizeHeaders (Headers request) Map.empty) request
      else errorResponse 400 bodyUnsupported) \<and>
   handler env
     (request\<lparr>Headers := filter (\<lambda>kv. ToLower (fst kv) \<noteq> ''content-type'') (Headers request)\<rparr>) =
     errorResponse 400 bodyUnsupported"
proof (intro conjI)
  show "contentType request =
     (case filter (\<lambda>kv. ToLower (fst kv) = ''content-type'') (Headers request) of
        [] \<Rightarrow> []
      | kv # kvs \<Rightarrow> snd (last (kv # kvs)))"
    unfolding contentType_def header_def normalizeHeaders_lookup
    by (simp split: list.split)
  show "handler env request =
     (if sublist ''application/json'' (contentType request)
      then jsonBranch env (zeroLogEvent\<lparr>LogID := uuidNew env\<rparr>) request
      else if sublist ''text/plain'' (contentType request)
      then textBranch env (zeroLogEvent\<lparr>LogID := uuidNew env\<rparr>)
             (normalizeHeaders (Headers request) Map.empty) request
      else errorResponse 400 bodyUnsupported)"
    by (simp only: handler_cases Contains_sublist)
  let ?r = "request\<lparr>Headers := filter (\<lambda>kv. ToLower (fst kv) \<noteq> ''content-type'') (Headers request)\<rparr>"
  have "filter (\<lambda>kv. ToLower (fst kv) = ''content-type'') (Headers ?r) = []"
    by (simp add: filter_empty_conv)
  then have "contentType ?r = []"
    unfolding contentType_def header_def normalizeHeaders_lookup by simp
  then show "handler env ?r = errorResponse 400 bodyUnsupported"
    by (simp add: handler_cases)
qed

text \<open>
  C4 as stated fails: the value \<open>Application/JSON\<close> contains \<open>application/json\<close> once
  letter case is ignored, yet the handler rejects the request as unsupported instead of
  taking the JSON branch (which would have answered \<open>Missing tenant_id\<close> for this body).
\<close>

theorem content_type_case_counterexample:
  "Contains (ToLower ''Application/JSON'') ''application/json'' \<and>
   handler (tableEnv sampleDocs None)
     \<lparr>Headers = [(''Content-Type'', ''Application/JSON'')], Body = ''{}''\<rparr> =
     errorResponse 400 bodyUnsupported \<and>
   jsonBranch (tableEnv sampleDocs None)
     (zeroLogEvent\<lparr>LogID := uuidNew (tableEnv sampleDocs None)\<rparr>)
     \<lparr>Headers = [(''Content-Type'', ''Application/JSON'')], Body = ''{}''\<rparr> =
     errorResponse 400 bodyMissingTenant"
proof (intro conjI)
  show "Contains (ToLower ''Application/JSON'') ''application/json''"
    by code_simp
  have "contentType \<lparr>Headers = [(''Content-Type'', ''Application/JSON'')], Body = ''{}''\<rparr> =
        ''Application/JSON''"
    by (simp add: contentType_def header_def ToLower_Content_Type)
  then show "handler (tableEnv sampleDocs None)
     \<lparr>Headers = [(''Content-Type'', ''Application/JSON'')], Body = ''{}''\<rparr> =
     errorResponse 400 bodyUnsupported"
    by (simp add: handler_cases)
  have "jsonUnmarshal (tableEnv sampleDocs None) ''{}'' = Inr Map.empty"
    by (simp add: jsonUnmarshal_def tableEnv_def sampleDocs_def unmarshalMap_def)
  then show "jsonBranch (tableEnv sampleDocs None)
     (zeroLogEvent\<lparr>LogID := uuidNew (tableEnv sampleDocs None)\<rparr>)
     \<lparr>Headers = [(''Content-Type'', ''Application/JSON'')], Body = ''{}''\<rparr> =
     errorResponse 400 bodyMissingTenant"
    by (simp add: jsonBranch_def assertString_def validateAndPublish_def zeroLogEvent_def)
qed

text \<open>
  C7 as stated fails: the body \<open>[]\<close> is valid JSON and is a hard failure all the same.
\<close>

theorem json_array_counterexample:
  "jsonParse (tableEnv sampleDocs None) ''[]'' = Some (JArray []) \<and>
   handler (tableEnv sampleDocs None) (jsonRequest ''[]'') = errorResponse 400 bodyInvalidJSON"
proof -
  have p: "jsonParse (tableEnv sampleDocs None) ''[]'' = Some (JArray [])"
    by (simp add: tableEnv_def sampleDocs_def)
  then have "jsonUnmarshal (tableEnv sampleDocs None) (Body (jsonRequest ''[]'')) =
             Inl (Error ''json: cannot unmarshal into Go value of type map[string]interface {}'')"
    by (simp add: jsonUnmarshal_def unmarshalMap_def jsonRequest_def)
  then show ?thesis
    using p by (simp add: handler_cases contentType_jsonRequest jsonBranch_Inl)
qed

lemma jsonParse_tableEnv:
  "jsonParse (tableEnv docs a) b = map_of docs b"
  by (simp add: tableEnv_def)

text \<open>
  C3 as stated fails: for the body \<open>[]\<close> on the JSON path the content type is supported
  and the body is well-formed JSON, so the first failing check of the claim is the
  missing tenant identifier; the handler answers \<open>Invalid JSON\<close>, not
  \<open>Missing tenant_id\<close>.
\<close>

theorem validation_order_counterexample:
  "\<not> unsupportedContentType (jsonRequest ''[]'') \<and>
   \<not> malformedBody (tableEnv sampleDocs None) (jsonRequest ''[]'') \<and>
   missingTenant (tableEnv sampleDocs None) (jsonRequest ''[]'') \<and>
   resp (handler (tableEnv sampleDocs None) (jsonRequest ''[]'')) =
     \<lparr>StatusCode = 400, RHeaders = [], RBody = bodyInvalidJSON\<rparr> \<and>
   resp (handler (tableEnv sampleDocs None) (jsonRequest ''[]'')) \<noteq>
     \<lparr>StatusCode = 400, RHeaders = [], RBody = bodyMissingTenant\<rparr>"
proof -
  have p: "jsonParse (tableEnv sampleDocs None) (Body (jsonRequest ''[]'')) = Some (JArray [])"
    by (simp add: jsonParse_tableEnv sampleDocs_def jsonRequest_def)
  have u: "jsonUnmarshal (tableEnv sampleDocs None) (Body (jsonRequest ''[]'')) =
           Inl (Error ''json: cannot unmarshal into Go value of type map[string]interface {}'')"
    using p by (simp add: jsonUnmarshal_def unmarshalMap_def)
  have 1: "\<not> unsupportedContentType (jsonRequest ''[]'')"
    by (simp add: unsupportedContentType_def contentType_jsonRequest)
  have 2: "\<not> malformedBody (tableEnv sampleDocs None) (jsonRequest ''[]'')"
    using p by (simp add: malformedBody_def)
  have 3: "missingTenant (tableEnv sampleDocs None) (jsonRequest ''[]'')"
    using u by (simp add: missingTenant_def normalizedTenant_def contentType_jsonRequest
        stringField_def)
  have h: "handler (tableEnv sampleDocs None) (jsonRequest ''[]'') =
           errorResponse 400 bodyInvalidJSON"
    using u by (simp add: handler_cases contentType_jsonRequest jsonBranch_Inl)
  have 4: "resp (handler (tableEnv sampleDocs None) (jsonRequest ''[]'')) =
           \<lparr>StatusCode = 400, RHeaders = [], RBody = bodyInvalidJSON\<rparr>"
    unfolding h by (simp add: errorResponse_def)
  have 5: "resp (handler (tableEnv sampleDocs None) (jsonRequest ''[]'')) \<noteq>
           \<lparr>StatusCode = 400, RHeaders = [], RBody = bodyMissingTenant\<rparr>"
    unfolding 4 by (simp add: bodyInvalidJSON_def bodyMissingTenant_def)
  show ?thesis using 1 2 3 4 5 by (intro conjI)
qed

theorem json_field_extraction_witness:
  \<open>handler (tableEnv sampleDocs None) (jsonRequest ''{"tenant_id":'') =
     errorResponse 400 bodyInvalidJSON \<and>
   handler (tableEnv sampleDocs None) (jsonRequest ''[]'') =
     errorResponse 400 bodyInvalidJSON \<and>
   handler (tableEnv sampleDocs None) (jsonRequest ''{"tenant_id":7,"text":"hello"}'') =
     errorResponse 400 bodyMissingTenant \<and>
   handler (tableEnv sampleDocs None)
     (jsonRequest ''{"tenant_id":"acme","text":false,"log_id":"101"}'') =
     errorResponse 400 bodyMissingText \<and>
   sqsCalls (handler (tableEnv sampleDocs None)
     (jsonRequest ''{"tenant_id":"acme","text":"hello","log_id":101}'')) =
     [marshalLogEvent (tableEnv sampleDocs None)
        \<lparr>TenantID = ''acme'', LogID = ''6f1c1a52-0000-4000-8000-000000000001'',
         OriginalText = ''hello'', Source = ''json_upload''\<rparr>]\<close>
proof -
  have ct: "Contains (contentType (jsonRequest b)) ''application/json''" for b
    by (simp add: contentType_jsonRequest)
  have body: "Body (jsonRequest b) = b" for b
    by (simp add: jsonRequest_def)
  have 1: \<open>handler (tableEnv sampleDocs None) (jsonRequest ''{"tenant_id":'') =
     errorResponse 400 bodyInvalidJSON\<close>
    using json_field_extraction [of \<open>jsonRequest ''{"tenant_id":''\<close> "tableEnv sampleDocs None", OF ct]
    by (simp add: body jsonParse_tableEnv sampleDocs_def)
  have 2: "handler (tableEnv sampleDocs None) (jsonRequest ''[]'') =
     errorResponse 400 bodyInvalidJSON"
    using json_field_extraction [of \<open>jsonRequest ''[]''\<close> "tableEnv sampleDocs None", OF ct]
    by (simp add: body jsonParse_tableEnv sampleDocs_def decodable_def)
  have 3: \<open>handler (tableEnv sampleDocs None) (jsonRequest ''{"tenant_id":7,"text":"hello"}'') =
     errorResponse 400 bodyMissingTenant\<close>
  proof -
    let ?v = "JObject [(''tenant_id'', JNumber True), (''text'', JString ''hello'')]"
    have d: \<open>jsonParse (tableEnv sampleDocs None)
               (Body (jsonRequest ''{"tenant_id":7,"text":"hello"}'')) = Some ?v \<and> decodable ?v\<close>
      by (simp add: body jsonParse_tableEnv sampleDocs_def decodable_def)
    have f: "fieldString (membersOf ?v) ''tenant_id'' = None"
      by (simp add: membersOf_def fieldString_def)
    show ?thesis
      using json_field_extraction [of \<open>jsonRequest ''{"tenant_id":7,"text":"hello"}''\<close>
          "tableEnv sampleDocs None", OF ct] d f
      by blast
  qed
  have 4: \<open>handler (tableEnv sampleDocs None)
     (jsonRequest ''{"tenant_id":"acme","text":false,"log_id":"101"}'') =
     errorResponse 400 bodyMissingText\<close>
  proof -
    let ?v = "JObject [(''tenant_id'', JString ''acme''), (''text'', JBool False),
                       (''log_id'', JString ''101'')]"
    have d: \<open>jsonParse (tableEnv sampleDocs None)
               (Body (jsonRequest ''{"tenant_id":"acme","text":false,"log_id":"101"}'')) =
             Some ?v \<and> decodable ?v\<close>
      by (simp add: body jsonParse_tableEnv sampleDocs_def decodable_def)
    have f: "fieldString (membersOf ?v) ''tenant_id'' \<noteq> None \<and>
             fieldString (membersOf ?v) ''tenant_id'' \<noteq> Some [] \<and>
             fieldString (membersOf ?v) ''text'' = None"
      by (simp add: membersOf_def fieldString_def)
    show ?thesis
      using json_field_extraction
          [of \<open>jsonRequest ''{"tenant_id":"acme","text":false,"log_id":"101"}''\<close>
          "tableEnv sampleDocs None", OF ct] d f
      by blast
  qed
  have 5: \<open>sqsCalls (handler (tableEnv sampleDocs None)
     (jsonRequest ''{"tenant_id":"acme","text":"hello","log_id":101}'')) =
     [marshalLogEvent (tableEnv sampleDocs None)
        \<lparr>TenantID = ''acme'', LogID = ''6f1c1a52-0000-4000-8000-000000000001'',
         OriginalText = ''hello'', Source = ''json_upload''\<rparr>]\<close>
  proof -
    let ?v = "JObject [(''tenant_id'', JString ''acme''), (''text'', JString ''hello''),
                       (''log_id'', JNumber True)]"
    have d: \<open>jsonParse (tableEnv sampleDocs None)
               (Body (jsonRequest ''{"tenant_id":"acme","text":"hello","log_id":101}'')) =
             Some ?v \<and> decodable ?v\<close>
      by (simp add: body jsonParse_tableEnv sampleDocs_def decodable_def)
    have e: "eventOfMembers (tableEnv sampleDocs None) (membersOf ?v) =
             \<lparr>TenantID = ''acme'', LogID = ''6f1c1a52-0000-4000-8000-000000000001'',
              OriginalText = ''hello'', Source = ''json_upload''\<rparr>"
      by (simp add: membersOf_def fieldString_def eventOfMembers_def tableEnv_def)
    have \<open>handler (tableEnv sampleDocs None)
            (jsonRequest ''{"tenant_id":"acme","text":"hello","log_id":101}'') =
          validateAndPublish (tableEnv sampleDocs None)
            (eventOfMembers (tableEnv sampleDocs None) (membersOf ?v))\<close>
      using json_field_extraction
          [of \<open>jsonRequest ''{"tenant_id":"acme","text":"hello","log_id":101}''\<close>
          "tableEnv sampleDocs None", OF ct] d
      by blast
    then show ?thesis
      unfolding e by (simp add: validateAndPublish_def tableEnv_def)
  qed
  show ?thesis using 1 2 3 4 5 by (intro conjI)
qed

text \<open>
  A rejected request of C5 at work: a JSON upload without a tenant identifier.
\<close>

theorem rejected_never_enqueued_witness:
  \<open>rejected (tableEnv sampleDocs None) (jsonRequest ''{"tenant_id":7,"text":"hello"}'') \<and>
   StatusCode (resp (handler (tableEnv sampleDocs None)
     (jsonRequest ''{"tenant_id":7,"text":"hello"}''))) = 400 \<and>
   sqsCalls (handler (tableEnv sampleDocs None)
     (jsonRequest ''{"tenant_id":7,"text":"hello"}'')) = []\<close>
proof -
  let ?v = "JObject [(''tenant_id'', JNumber True), (''text'', JString ''hello'')]"
  have \<open>jsonUnmarshal (tableEnv sampleDocs None)
          (Body (jsonRequest ''{"tenant_id":7,"text":"hello"}'')) =
        Inr (map_of (rev (membersOf ?v)))\<close>
    by (simp add: jsonUnmarshal_def jsonParse_tableEnv sampleDocs_def jsonRequest_def
        unmarshalMap_decodable decodable_def)
  then have \<open>missingTenant (tableEnv sampleDocs None)
               (jsonRequest ''{"tenant_id":7,"text":"hello"}'')\<close>
    by (simp add: missingTenant_def normalizedTenant_def contentType_jsonRequest
        stringField_def assertString_def membersOf_def)
  then have r: \<open>rejected (tableEnv sampleDocs None)
                  (jsonRequest ''{"tenant_id":7,"text":"hello"}'')\<close>
    by (simp add: rejected_def)
  show ?thesis
    using r rejected_never_enqueued [of "tableEnv sampleDocs None"
        \<open>jsonRequest ''{"tenant_id":7,"text":"hello"}''\<close>]
    by blast
qed

section \<open>Properties of the worker\<close>

subsection \<open>Redaction\<close>

text \<open>
  C2. The redaction (phone, then SSN, then e-mail substitution, each replacing every
  non-overlapping match by \<open>[REDACTED]\<close>) on the test vectors: the phone number of
  \<open>call 800-555-0199\<close> is replaced, so the result contains the marker and no longer
  the digit sequence; \<open>ssn 123-45-6789\<close> and \<open>a@b.com\<close> are redacted;
  \<open>no pii here\<close> is unchanged; in the log line with a phone number and an IP address
  the phone number is replaced and \<open>192.168.1.1\<close> stays.
\<close>

theorem redactPII_test_vectors:
  "Contains (redactPII ''call 800-555-0199'') ''[REDACTED]'' \<and>
   \<not> Contains (redactPII ''call 800-555-0199'') ''800-555-0199'' \<and>
   redactPII ''call 800-555-0199'' = ''call [REDACTED]'' \<and>
   redactPII ''ssn 123-45-6789'' = ''ssn [REDACTED]'' \<and>
   redactPII ''a@b.com'' = ''[REDACTED]'' \<and>
   redactPII ''no pii here'' = ''no pii here'' \<and>
   redactPII ''User 800-555-0199 logged in from 192.168.1.1'' =
     ''User [REDACTED] logged in from 192.168.1.1''"
  by code_simp

subsection \<open>The simulated cost\<close>

lemma sint_word_of_int_small:
  assumes "0 \<le> x" and "x < 2 ^ 63"
  shows "sint (word_of_int x :: 64 word) = x"
proof -
  have "sint (word_of_int x :: 64 word) = (x + 2 ^ 63) mod 2 ^ 64 - 2 ^ 63"
    by (simp add: int_word_sint)
  also have "(x + 2 ^ 63) mod 2 ^ 64 = x + 2 ^ 63"
    using assms by (intro mod_pos_pos_trivial) simp_all
  finally show ?thesis by simp
qed

lemma product_word:
  "(of_nat n :: 64 word) * 50 * Millisecond = word_of_int (int n * 50000000)"
  by (simp add: Millisecond_def)

lemma sint_product:
  assumes "int n * 50000000 < 2 ^ 63"
  shows "sint ((of_nat n :: 64 word) * 50 * Millisecond) = int n * 50000000"
  unfolding product_word using assms by (intro sint_word_of_int_small) simp_all

lemma sint_cap: "sint (5 * Second) = 5000000000"
  by (simp add: Second_def)

text \<open>
  C9. The delay handed to \<open>time.Sleep\<close> before the redaction is the length of the
  original text times 50 milliseconds, capped at five seconds: it is the minimum of the
  two whenever the length times 50 ms fits the signed 64-bit nanosecond counter (up to
  184467440737 bytes, far beyond any queue message), it never exceeds five seconds for
  any input at all, and it is the duration that processing a decodable message sleeps.
\<close>

theorem sleepDuration_capped:
  "(int (length originalText) * 50000000 < 2 ^ 63 \<longrightarrow>
      sint (sleepDuration originalText) =
        min (int (length originalText) * 50000000) 5000000000) \<and>
   sint (sleepDuration originalText) \<le> 5000000000 \<and>
   (\<forall>env w message event.
      jsonUnmarshalEvent env (MBody message) = Inr event \<longrightarrow>
      slept (snd (processMessage env w message)) =
        slept w @ [sleepDuration (OriginalText event)])"
proof (intro conjI impI allI)
  assume "int (length originalText) * 50000000 < 2 ^ 63"
  then have "sint ((of_nat (length originalText) :: 64 word) * 50 * Millisecond) =
             int (length originalText) * 50000000"
    by (rule sint_product)
  then show "sint (sleepDuration originalText) =
             min (int (length originalText) * 50000000) 5000000000"
    by (simp add: sleepDuration_def Let_def word_sless_alt sint_cap)
next
  show "sint (sleepDuration originalText) \<le> 5000000000"
    by (simp add: sleepDuration_def Let_def word_sless_alt sint_cap)
next
  fix env :: worker_env and w :: world and message :: SQSMessage and event :: LogEvent
  assume "jsonUnmarshalEvent env (MBody message) = Inr event"
  then show "slept (snd (processMessage env w message)) =
        slept w @ [sleepDuration (OriginalText event)]"
    by (simp add: processMessage_def Let_def PutItem_def Sleep_def
        split: sum.split option.split)
qed

text \<open>
  The bound is sharp: one byte more and the product leaves the counter, the duration
  turns negative and the sleep returns at once.
\<close>

lemma sleepDuration_wraps:
  "int (length (replicate 184467440737 c)) * 50000000 < 2 ^ 63 \<and>
   sint (sleepDuration (replicate 184467440738 c)) = - 9223372036809551616"
  by (simp add: sleepDuration_def Let_def Millisecond_def Second_def word_sless_alt)

subsection \<open>The record writer and the processed item\<close>

lemma PutItem_Inr:
  "PutItem env w item = Inr w1 \<Longrightarrow>
   \<exists>k. itemKey item = Some k \<and> putItemError env w item = None \<and>
       w1 = w\<lparr>table := (table w)(k \<mapsto> item)\<rparr>"
  by (auto simp add: PutItem_def split: option.splits)

text \<open>
  C6. The record writer is an unconditional upsert under the key
  \<open>(tenant_id, log_id)\<close>: a second successful write of the same item leaves the state
  exactly as the first one did; the table holds the item under its key, every other key
  keeps what it had, and the key set grows by at most that one key.
\<close>

theorem putItem_idempotent:
  assumes "PutItem env w item = Inr w1" and "PutItem env w1 item = Inr w2"
  shows "w2 = w1 \<and>
         (\<exists>k. itemKey item = Some k \<and> table w1 k = Some item \<and>
              (\<forall>k'. k' \<noteq> k \<longrightarrow> table w1 k' = table w k') \<and>
              dom (table w1) = insert k (dom (table w)))"
proof -
  obtain k where k: "itemKey item = Some k" and w1: "w1 = w\<lparr>table := (table w)(k \<mapsto> item)\<rparr>"
    using PutItem_Inr [OF assms(1)] by blast
  obtain k2 where k2: "itemKey item = Some k2"
    and w2: "w2 = w1\<lparr>table := (table w1)(k2 \<mapsto> item)\<rparr>"
    using PutItem_Inr [OF assms(2)] by blast
  have "k2 = k" using k k2 by simp
  then have "w2 = w1" using w1 w2 by simp
  moreover have "table w1 k = Some item" using w1 by simp
  moreover have "\<forall>k'. k' \<noteq> k \<longrightarrow> table w1 k' = table w k'" using w1 by simp
  moreover have "dom (table w1) = insert k (dom (table w))" using w1 by simp
  ultimately show ?thesis using k by blast
qed

lemma itemKey_processedItem:
  "itemKey (processedItem event m now) = Some (TenantID event, LogID event)"
  by (simp add: itemKey_def processedItem_def hash_key_def range_key_def)

lemma processMessage_None:
  assumes "processMessage env w message = (None, w')"
  shows "\<exists>event. jsonUnmarshalEvent env (MBody message) = Inr event \<and>
           w' = (Sleep w (sleepDuration (OriginalText event)))
                  \<lparr>table := (table w)((TenantID event, LogID event) \<mapsto>
                     processedItem event (redactPII (OriginalText event))
                       (timeNow env (Sleep w (sleepDuration (OriginalText event)))))\<rparr>"
proof (cases "jsonUnmarshalEvent env (MBody message)")
  case (Inl e)
  then show ?thesis using assms by (simp add: processMessage_def)
next
  case (Inr event)
  let ?w1 = "Sleep w (sleepDuration (OriginalText event))"
  let ?item = "processedItem event (redactPII (OriginalText event)) (timeNow env ?w1)"
  from assms Inr have "PutItem env ?w1 ?item = Inr w'"
    by (simp add: processMessage_def Let_def split: sum.splits)
  from PutItem_Inr [OF this] have "w' = ?w1\<lparr>table := (table ?w1)((TenantID event, LogID event) \<mapsto> ?item)\<rparr>"
    by (auto simp add: itemKey_processedItem)
  then show ?thesis using Inr by (simp add: Sleep_def)
qed

text \<open>
  C8. A message that is processed without error leaves, under the key of its decoded
  event, an item whose \<open>tenant_id\<close>, \<open>log_id\<close>, \<open>original_text\<close> and \<open>source\<close> are
  those of the event, unchanged; besides them the item has exactly the derived
  attributes \<open>modified_data\<close> (the redacted text), \<open>processed_at\<close> and \<open>status\<close>.
\<close>

theorem processMessage_keeps_event_fields:
  assumes "processMessage env w message = (None, w')"
  shows "\<exists>event item.
           jsonUnmarshalEvent env (MBody message) = Inr event \<and>
           table w' (TenantID event, LogID event) = Some item \<and>
           item ''tenant_id'' = Some (AttributeValueMemberS (TenantID event)) \<and>
           item ''log_id'' = Some (AttributeValueMemberS (LogID event)) \<and>
           item ''original_text'' = Some (AttributeValueMemberS (OriginalText event)) \<and>
           item ''source'' = Some (AttributeValueMemberS (Source event)) \<and>
           item ''modified_data'' = Some (AttributeValueMemberS (redactPII (OriginalText event))) \<and>
           item ''status'' = Some (AttributeValueMemberS ''PROCESSED'') \<and>
           dom item = {''tenant_id'', ''log_id'', ''original_text'', ''source'',
                       ''modified_data'', ''processed_at'', ''status''}"
proof -
  obtain event where e: "jsonUnmarshalEvent env (MBody message) = Inr event"
    and w': "w' = (Sleep w (sleepDuration (OriginalText event)))
                  \<lparr>table := (table w)((TenantID event, LogID event) \<mapsto>
                     processedItem event (redactPII (OriginalText event))
                       (timeNow env (Sleep w (sleepDuration (OriginalText event)))))\<rparr>"
    using processMessage_None [OF assms] by blast
  let ?item = "processedItem event (redactPII (OriginalText event))
                 (timeNow env (Sleep w (sleepDuration (OriginalText event))))"
  have t: "table w' (TenantID event, LogID event) = Some ?item"
    using w' by simp
  have f: "?item ''tenant_id'' = Some (AttributeValueMemberS (TenantID event)) \<and>
           ?item ''log_id'' = Some (AttributeValueMemberS (LogID event)) \<and>
           ?item ''original_text'' = Some (AttributeValueMemberS (OriginalText event)) \<and>
           ?item ''source'' = Some (AttributeValueMemberS (Source event)) \<and>
           ?item ''modified_data'' = Some (AttributeValueMemberS (redactPII (OriginalText event))) \<and>
           ?item ''status'' = Some (AttributeValueMemberS ''PROCESSED'')"
    by (simp add: processedItem_def)
  have d: "dom ?item = {''tenant_id'', ''log_id'', ''original_text'', ''source'',
                       ''modified_data'', ''processed_at'', ''status''}"
    by (auto simp add: processedItem_def)
  show ?thesis using e t f d by blast
qed

text \<open>
  Redelivery: when a message is processed twice and both runs succeed, the second run
  overwrites the item of the first under the same key; the two items agree on every
  attribute but \<open>processed_at\<close>, and the table has the same keys as after the first
  run.
\<close>

lemma redelivery_overwrites:
  assumes "processMessage env w message = (None, w1)"
    and "processMessage env w1 message = (None, w2)"
  shows "\<exists>event item1 item2.
           jsonUnmarshalEvent env (MBody message) = Inr event \<and>
           table w1 (TenantID event, LogID event) = Some item1 \<and>
           table w2 = (table w1)((TenantID event, LogID event) \<mapsto> item2) \<and>
           item2 = item1(''processed_at'' := item2 ''processed_at'') \<and>
           dom (table w2) = dom (table w1)"
proof -
  obtain event where e: "jsonUnmarshalEvent env (MBody message) = Inr event"
    and w1: "w1 = (Sleep w (sleepDuration (OriginalText event)))
                  \<lparr>table := (table w)((TenantID event, LogID event) \<mapsto>
                     processedItem event (redactPII (OriginalText event))
                       (timeNow env (Sleep w (sleepDuration (OriginalText event)))))\<rparr>"
    using processMessage_None [OF assms(1)] by blast
  obtain event' where e': "jsonUnmarshalEvent env (MBody message) = Inr event'"
    and w2: "w2 = (Sleep w1 (sleepDuration (OriginalText event')))
                  \<lparr>table := (table w1)((TenantID event', LogID event') \<mapsto>
                     processedItem event' (redactPII (OriginalText event'))
                       (timeNow env (Sleep w1 (sleepDuration (OriginalText event')))))\<rparr>"
    using processMessage_None [OF assms(2)] by blast
  have same: "event' = event" using e e' by simp
  let ?i1 = "processedItem event (redactPII (OriginalText event))
               (timeNow env (Sleep w (sleepDuration (OriginalText event))))"
  let ?i2 = "processedItem event (redactPII (OriginalText event))
               (timeNow env (Sleep w1 (sleepDuration (OriginalText event))))"
  have 1: "table w1 (TenantID event, LogID event) = Some ?i1" using w1 by simp
  have 2: "table w2 = (table w1)((TenantID event, LogID event) \<mapsto> ?i2)"
    using w2 same by simp
  have 3: "?i2 = ?i1(''processed_at'' := ?i2 ''processed_at'')"
    by (rule ext) (simp add: processedItem_def)
  have 4: "dom (table w2) = dom (table w1)"
    unfolding 2 using 1 by auto
  show ?thesis using e 1 2 3 4 by blast
qed

subsection \<open>Partial batch failure\<close>

lemma worldBefore_0: "worldBefore env w ms 0 = w"
  by (simp add: worldBefore_def)

lemma worldBefore_Cons:
  "worldBefore env w (m # ms) (Suc i) = worldBefore env (snd (processMessage env w m)) ms i"
  by (simp add: worldBefore_def)

lemma failsAt_Cons_0: "failsAt env w (m # ms) 0 = (fst (processMessage env w m) \<noteq> None)"
  by (simp add: failsAt_def worldBefore_0)

lemma failsAt_Cons_Suc:
  "failsAt env w (m # ms) (Suc i) = failsAt env (snd (processMessage env w m)) ms i"
  by (simp add: failsAt_def worldBefore_Cons)

lemma failedItems_Nil: "failedItems env w [] = []"
  by (simp add: failedItems_def)

lemma failedItems_Cons:
  "failedItems env w (m # ms) =
     (if fst (processMessage env w m) \<noteq> None then [\<lparr>ItemIdentifier = MessageId m\<rparr>] else []) @
     failedItems env (snd (processMessage env w m)) ms"
proof -
  have upt: "[0..<length (m # ms)] = 0 # map Suc [0..<length ms]"
    by (simp add: upt_conv_Cons map_Suc_upt del: upt_Suc)
  have shift: "map (\<lambda>i. \<lparr>ItemIdentifier = MessageId ((m # ms) ! i)\<rparr>)
                 (filter (failsAt env w (m # ms)) (map Suc [0..<length ms])) =
               failedItems env (snd (processMessage env w m)) ms"
    by (simp add: failedItems_def filter_map comp_def failsAt_Cons_Suc)
  show ?thesis
    unfolding failedItems_def [of env w "m # ms"] upt
    using shift by (simp add: failsAt_Cons_0)
qed

lemma handlerLoop_outcomes:
  "handlerLoop env w ms failures =
     (failures @ failedItems env w ms, worldBefore env w ms (length ms))"
proof (induction ms arbitrary: w failures)
  case Nil
  then show ?case by (simp add: failedItems_Nil worldBefore_0)
next
  case (Cons m ms)
  obtain r w' where p: "processMessage env w m = (r, w')"
    by (cases "processMessage env w m")
  show ?case
    by (cases r) (simp_all add: p Cons.IH failedItems_Cons worldBefore_Cons)
qed

lemma failedItems_member:
  assumes "distinct (map MessageId ms)" and "i < length ms"
  shows "(\<lparr>ItemIdentifier = MessageId (ms ! i)\<rparr> \<in> set (failedItems env w ms)) =
         failsAt env w ms i"
proof
  assume "\<lparr>ItemIdentifier = MessageId (ms ! i)\<rparr> \<in> set (failedItems env w ms)"
  then obtain j where j: "j < length ms" "failsAt env w ms j"
    and eq: "MessageId (ms ! j) = MessageId (ms ! i)"
    by (auto simp add: failedItems_def)
  have "map MessageId ms ! j = map MessageId ms ! i"
    using eq j(1) assms(2) by simp
  moreover have "j < length (map MessageId ms)" and "i < length (map MessageId ms)"
    using j(1) assms(2) by simp_all
  ultimately have "j = i"
    using assms(1) nth_eq_iff_index_eq [of "map MessageId ms" j i] by blast
  then show "failsAt env w ms i" using j(2) by simp
next
  assume "failsAt env w ms i"
  then show "\<lparr>ItemIdentifier = MessageId (ms ! i)\<rparr> \<in> set (failedItems env w ms)"
    using assms(2) by (auto simp add: failedItems_def)
qed

text \<open>
  C1. For every batch the worker handler returns a nil error; its failure list names,
  in batch order, exactly the messages whose processing (decoding or writing) failed
  when their turn came; every message of the batch is processed, whatever happened to
  the others, the final state being the one left by processing all of them in turn;
  and with pairwise different message identifiers, a message is in the failure list
  if and only if its own processing failed.
\<close>

theorem handler_partial_failure:
  "snd (fst (workerHandler env w sqsEvent)) = None \<and>
   BatchItemFailures (fst (fst (workerHandler env w sqsEvent))) =
     map (\<lambda>i. \<lparr>ItemIdentifier = MessageId (Records sqsEvent ! i)\<rparr>)
       (filter (failsAt env w (Records sqsEvent)) [0..<length (Records sqsEvent)]) \<and>
   snd (workerHandler env w sqsEvent) =
     worldBefore env w (Records sqsEvent) (length (Records sqsEvent)) \<and>
   (distinct (map MessageId (Records sqsEvent)) \<longrightarrow>
      (\<forall>i<length (Records sqsEvent).
         (\<lparr>ItemIdentifier = MessageId (Records sqsEvent ! i)\<rparr>
            \<in> set (BatchItemFailures (fst (fst (workerHandler env w sqsEvent))))) =
         failsAt env w (Records sqsEvent) i))"
proof -
  have h: "workerHandler env w sqsEvent =
           ((\<lparr>BatchItemFailures = failedItems env w (Records sqsEvent)\<rparr>, None),
            worldBefore env w (Records sqsEvent) (length (Records sqsEvent)))"
    by (simp add: workerHandler_def handlerLoop_outcomes)
  show ?thesis
    unfolding h using failedItems_member [of "Records sqsEvent" _ env w]
    by (simp add: failedItems_def)
qed

subsection \<open>Worked examples\<close>

lemma redactPII_call: "redactPII ''call 800-555-0199'' = ''call [REDACTED]''"
  by code_simp

lemma fst_processMessage:
  "fst (processMessage env w message) =
     (case jsonUnmarshalEvent env (MBody message) of
        Inl e \<Rightarrow> Some e
      | Inr event \<Rightarrow>
          putItemError env (Sleep w (sleepDuration (OriginalText event)))
            (processedItem event (redactPII (OriginalText event))
               (timeNow env (Sleep w (sleepDuration (OriginalText event))))))"
  by (simp add: processMessage_def Let_def PutItem_def itemKey_processedItem
      split: sum.split option.split)

lemma sample_decode:
  "jsonUnmarshalEvent sampleWorkerEnv body =
     (case map_of sampleBodies body of
        None \<Rightarrow> Inl (Error ''invalid character'')
      | Some event \<Rightarrow> Inr event)"
  by (simp add: sampleWorkerEnv_def)

lemma sample_put:
  "putItemError sampleWorkerEnv w (processedItem event m now) =
     (if LogID event = ''103'' then Some (Error ''ProvisionedThroughputExceededException'')
      else None)"
  by (simp add: sampleWorkerEnv_def processedItem_def)

lemma sample_fails:
  "failsAt sampleWorkerEnv w (Records sampleBatch) 0 = False"
  "failsAt sampleWorkerEnv w (Records sampleBatch) (Suc 0) = True"
  "failsAt sampleWorkerEnv w (Records sampleBatch) 2 = True"
  "failsAt sampleWorkerEnv w (Records sampleBatch) 3 = False"
  by (simp_all add: failsAt_def fst_processMessage sample_decode sample_put sampleBatch_def
      sampleBodies_def)

theorem handler_partial_failure_witness:
  "distinct (map MessageId (Records sampleBatch)) \<and>
   snd (fst (workerHandler sampleWorkerEnv emptyWorld sampleBatch)) = None \<and>
   BatchItemFailures (fst (fst (workerHandler sampleWorkerEnv emptyWorld sampleBatch))) =
     [\<lparr>ItemIdentifier = ''m2''\<rparr>, \<lparr>ItemIdentifier = ''m3''\<rparr>] \<and>
   \<lparr>ItemIdentifier = ''m4''\<rparr>
     \<notin> set (BatchItemFailures (fst (fst (workerHandler sampleWorkerEnv emptyWorld sampleBatch))))"
proof -
  have d: "distinct (map MessageId (Records sampleBatch))"
    by (simp add: sampleBatch_def)
  have n: "[0..<length (Records sampleBatch)] = [0, 1, 2, 3]"
    by (simp add: sampleBatch_def upt_rec)
  note T = handler_partial_failure [of sampleWorkerEnv emptyWorld sampleBatch]
  have e: "snd (fst (workerHandler sampleWorkerEnv emptyWorld sampleBatch)) = None"
    using T by blast
  have flt: "filter (failsAt sampleWorkerEnv emptyWorld (Records sampleBatch)) [0, 1, 2, 3] =
             [1, 2]"
    by (simp add: sample_fails)
  have ids: "map (\<lambda>i. \<lparr>ItemIdentifier = MessageId (Records sampleBatch ! i)\<rparr>) [1, 2] =
             [\<lparr>ItemIdentifier = ''m2''\<rparr>, \<lparr>ItemIdentifier = ''m3''\<rparr>]"
    by (simp add: sampleBatch_def)
  have "BatchItemFailures (fst (fst (workerHandler sampleWorkerEnv emptyWorld sampleBatch))) =
        map (\<lambda>i. \<lparr>ItemIdentifier = MessageId (Records sampleBatch ! i)\<rparr>)
          (filter (failsAt sampleWorkerEnv emptyWorld (Records sampleBatch))
             [0..<length (Records sampleBatch)])"
    using T by blast
  then have f: "BatchItemFailures (fst (fst (workerHandler sampleWorkerEnv emptyWorld sampleBatch))) =
     [\<lparr>ItemIdentifier = ''m2''\<rparr>, \<lparr>ItemIdentifier = ''m3''\<rparr>]"
    unfolding n flt ids .
  have "3 < length (Records sampleBatch)" by (simp add: sampleBatch_def)
  then have "(\<lparr>ItemIdentifier = MessageId (Records sampleBatch ! 3)\<rparr>
            \<in> set (BatchItemFailures (fst (fst (workerHandler sampleWorkerEnv emptyWorld sampleBatch))))) =
         failsAt sampleWorkerEnv emptyWorld (Records sampleBatch) 3"
    using T d by blast
  moreover have "MessageId (Records sampleBatch ! 3) = ''m4''"
    by (simp add: sampleBatch_def)
  ultimately have m: "\<lparr>ItemIdentifier = ''m4''\<rparr>
     \<notin> set (BatchItemFailures (fst (fst (workerHandler sampleWorkerEnv emptyWorld sampleBatch))))"
    by (simp add: sample_fails)
  show ?thesis using d e f m by (intro conjI)
qed

lemma sample_now: "timeNow sampleWorkerEnv w = ''2024-05-01T12:00:00Z''"
  by (simp add: sampleWorkerEnv_def)

lemma sample_PutItem:
  "PutItem sampleWorkerEnv w (processedItem event m now) =
     (if LogID event = ''103'' then Inl (Error ''ProvisionedThroughputExceededException'')
      else Inr (w\<lparr>table := (table w)((TenantID event, LogID event) \<mapsto>
                  processedItem event m now)\<rparr>))"
  by (simp add: PutItem_def sample_put itemKey_processedItem)

lemma sample_putItem:
  "PutItem sampleWorkerEnv w sampleItem =
     Inr (w\<lparr>table := (table w)((''acme'', ''101'') \<mapsto> sampleItem)\<rparr>)"
  by (simp add: sampleItem_def sample_PutItem)

theorem putItem_idempotent_witness:
  "PutItem sampleWorkerEnv emptyWorld sampleItem =
     Inr (emptyWorld\<lparr>table := [(''acme'', ''101'') \<mapsto> sampleItem]\<rparr>) \<and>
   PutItem sampleWorkerEnv (emptyWorld\<lparr>table := [(''acme'', ''101'') \<mapsto> sampleItem]\<rparr>) sampleItem =
     Inr (emptyWorld\<lparr>table := [(''acme'', ''101'') \<mapsto> sampleItem]\<rparr>) \<and>
   dom (table (emptyWorld\<lparr>table := [(''acme'', ''101'') \<mapsto> sampleItem]\<rparr>)) = {(''acme'', ''101'')}"
proof -
  let ?w1 = "emptyWorld\<lparr>table := [(''acme'', ''101'') \<mapsto> sampleItem]\<rparr>"
  have a: "PutItem sampleWorkerEnv emptyWorld sampleItem = Inr ?w1"
    by (simp add: sample_putItem emptyWorld_def)
  have b: "PutItem sampleWorkerEnv ?w1 sampleItem = Inr ?w1"
    by (simp add: sample_putItem emptyWorld_def)
  have k: "itemKey sampleItem = Some (''acme'', ''101'')"
    by (simp add: sampleItem_def itemKey_processedItem)
  have "dom (table ?w1) = insert (''acme'', ''101'') (dom (table emptyWorld))"
    using putItem_idempotent [OF a b] k by auto
  then have "dom (table ?w1) = {(''acme'', ''101'')}"
    by (simp add: emptyWorld_def)
  then show ?thesis using a b by blast
qed

lemma sample_decode_101: "jsonUnmarshalEvent sampleWorkerEnv ''body-101'' =
   Inr \<lparr>TenantID = ''acme'', LogID = ''101'', OriginalText = ''call 800-555-0199'',
                  Source = ''json_upload''\<rparr>"
  by (simp add: sample_decode sampleBodies_def)

lemma sample_process_101: "processMessage sampleWorkerEnv emptyWorld \<lparr>MessageId = ''m1'', MBody = ''body-101''\<rparr> =
     (None, \<lparr>table = [(''acme'', ''101'') \<mapsto> sampleItem],
             slept = [sleepDuration ''call 800-555-0199'']\<rparr>)"
  unfolding processMessage_def Let_def
  apply (simp only: SQSMessage.simps sample_decode_101 sum.case LogEvent.simps redactPII_call sample_now)
  apply (simp only: sample_PutItem LogEvent.simps)
  apply (simp add: sampleItem_def Sleep_def emptyWorld_def)
  done


theorem processMessage_keeps_event_fields_witness:
  "processMessage sampleWorkerEnv emptyWorld \<lparr>MessageId = ''m1'', MBody = ''body-101''\<rparr> =
     (None, \<lparr>table = [(''acme'', ''101'') \<mapsto> sampleItem],
             slept = [sleepDuration ''call 800-555-0199'']\<rparr>) \<and>
   sampleItem ''tenant_id'' = Some (AttributeValueMemberS ''acme'') \<and>
   sampleItem ''log_id'' = Some (AttributeValueMemberS ''101'') \<and>
   sampleItem ''original_text'' = Some (AttributeValueMemberS ''call 800-555-0199'') \<and>
   sampleItem ''source'' = Some (AttributeValueMemberS ''json_upload'') \<and>
   sampleItem ''modified_data'' = Some (AttributeValueMemberS ''call [REDACTED]'')"
proof -
  let ?m = "\<lparr>MessageId = ''m1'', MBody = ''body-101''\<rparr>"
  let ?event = "\<lparr>TenantID = ''acme'', LogID = ''101'', OriginalText = ''call 800-555-0199'',
                  Source = ''json_upload''\<rparr>"
  let ?w' = "\<lparr>table = [(''acme'', ''101'') \<mapsto> sampleItem],
              slept = [sleepDuration ''call 800-555-0199'']\<rparr>"
  have p: "processMessage sampleWorkerEnv emptyWorld ?m = (None, ?w')"
    by (rule sample_process_101)
  obtain event item where
    e: "jsonUnmarshalEvent sampleWorkerEnv (MBody ?m) = Inr event"
    and t: "table ?w' (TenantID event, LogID event) = Some item"
    and f: "item ''tenant_id'' = Some (AttributeValueMemberS (TenantID event))"
      "item ''log_id'' = Some (AttributeValueMemberS (LogID event))"
      "item ''original_text'' = Some (AttributeValueMemberS (OriginalText event))"
      "item ''source'' = Some (AttributeValueMemberS (Source event))"
      "item ''modified_data'' = Some (AttributeValueMemberS (redactPII (OriginalText event)))"
    using processMessage_keeps_event_fields [OF p] by (elim exE conjE) (rule that, assumption+)
  have "Inr event = (Inr ?event :: error + LogEvent)"
    using e sample_decode_101 by simp
  then have ev: "event = ?event" by (simp only: sum.inject)
  have "table ?w' (''acme'', ''101'') = Some item"
    using t unfolding ev by (simp only: LogEvent.simps)
  then have i: "item = sampleItem" by simp
  have r: "redactPII (OriginalText event) = ''call [REDACTED]''"
    unfolding ev by (simp only: LogEvent.simps redactPII_call)
  have 1: "sampleItem ''tenant_id'' = Some (AttributeValueMemberS ''acme'')"
    using f(1) unfolding i ev by (simp only: LogEvent.simps)
  have 2: "sampleItem ''log_id'' = Some (AttributeValueMemberS ''101'')"
    using f(2) unfolding i ev by (simp only: LogEvent.simps)
  have 3: "sampleItem ''original_text'' = Some (AttributeValueMemberS ''call 800-555-0199'')"
    using f(3) unfolding i ev by (simp only: LogEvent.simps)
  have 4: "sampleItem ''source'' = Some (AttributeValueMemberS ''json_upload'')"
    using f(4) unfolding i ev by (simp only: LogEvent.simps)
  have 5: "sampleItem ''modified_data'' = Some (AttributeValueMemberS ''call [REDACTED]'')"
    using f(5) unfolding i r .
  show ?thesis using p 1 2 3 4 5 by (intro conjI)
qed

theorem sleepDuration_capped_witness:
  "int (length ''abc'') * 50000000 < 2 ^ 63 \<and>
   sint (sleepDuration ''abc'') = 150000000 \<and>
   int (length (replicate 200 (CHR ''x''))) * 50000000 < 2 ^ 63 \<and>
   sint (sleepDuration (replicate 200 (CHR ''x''))) = 5000000000 \<and>
   jsonUnmarshalEvent sampleWorkerEnv (MBody \<lparr>MessageId = ''m1'', MBody = ''body-101''\<rparr>) =
     Inr \<lparr>TenantID = ''acme'', LogID = ''101'', OriginalText = ''call 800-555-0199'',
          Source = ''json_upload''\<rparr> \<and>
   slept (snd (processMessage sampleWorkerEnv emptyWorld
                 \<lparr>MessageId = ''m1'', MBody = ''body-101''\<rparr>)) =
     [sleepDuration ''call 800-555-0199'']"
proof -
  have a: "int (length ''abc'') * 50000000 < 2 ^ 63" by simp
  have b: "int (length (replicate 200 (CHR ''x''))) * 50000000 < 2 ^ 63" by simp
  have c: "jsonUnmarshalEvent sampleWorkerEnv
             (MBody \<lparr>MessageId = ''m1'', MBody = ''body-101''\<rparr>) =
           Inr \<lparr>TenantID = ''acme'', LogID = ''101'', OriginalText = ''call 800-555-0199'',
                Source = ''json_upload''\<rparr>"
    by (simp add: sample_decode sampleBodies_def)
  have 1: "sint (sleepDuration ''abc'') = 150000000"
    using sleepDuration_capped [of "''abc''"] a by simp
  have 2: "sint (sleepDuration (replicate 200 (CHR ''x''))) = 5000000000"
    using sleepDuration_capped [of "replicate 200 (CHR ''x'')"] b by simp
  have 3: "slept (snd (processMessage sampleWorkerEnv emptyWorld
                 \<lparr>MessageId = ''m1'', MBody = ''body-101''\<rparr>)) =
           [sleepDuration ''call 800-555-0199'']"
    using sleepDuration_capped [of "''abc''"] c by (simp add: emptyWorld_def)
  show ?thesis using a b c 1 2 3 by (intro conjI)
qed

end
